theory Spec2Isabelle
  imports Complex_Main
begin

section \<open>Numbers and tiles\<close>

text \<open>
  The runtime is JavaScript; every number of the source is modelled as an exact
  \<^typ>\<open>real\<close> (tile coordinates, tile counts and counters as \<^typ>\<open>int\<close>), so rounding
  of IEEE doubles is outside this development.  Record fields carry a short prefix where
  the source name is too short to be a constant (\<open>x\<close>, \<open>y\<close>, \<open>width\<close>, \<open>height\<close>) or is
  used by two classes.
\<close>

definition TILE_SIZE :: real where
  "TILE_SIZE = 16"

text \<open>\<open>TileType\<close>: the source keeps tiles as the numbers 0, 1 and 2.\<close>

definition EMPTY :: int where
  "EMPTY = 0"

definition SOLID :: int where
  "SOLID = 1"

definition PLATFORM :: int where
  "PLATFORM = 2"

record Rect =
  rect_x :: real
  rect_y :: real
  rect_width :: real
  rect_height :: real

record Color =
  col_r :: real
  col_g :: real
  col_b :: real

record Level =
  lv_width :: int
  lv_height :: int
  tiles :: "int list"
  hazards :: "Rect list"
  spawnX :: real
  spawnY :: real
  goalRect :: Rect
  backgroundColor :: Color
  lv_name :: string
  parTime :: real

text \<open>
  Reading a JavaScript array: an index outside the array yields \<open>undefined\<close>,
  here \<open>None\<close>.
\<close>

definition js_index :: "'a list \<Rightarrow> int \<Rightarrow> 'a option" where
  "js_index xs i = (if 0 \<le> i \<and> nat i < length xs then Some (xs ! nat i) else None)"

text \<open>\<open>isSolidTile(level, x, y)\<close>; \<open>undefined === 1\<close> is false.\<close>

definition isSolidTile :: "Level \<Rightarrow> int \<Rightarrow> int \<Rightarrow> bool" where
  "isSolidTile level x y =
     (if x < 0 \<or> x \<ge> lv_width level then True
      else if y < 0 then True
      else if y \<ge> lv_height level then False
      else (let index = y * lv_width level + x
            in js_index (tiles level) index = Some SOLID))"

text \<open>\<open>getTile(level, x, y)\<close>; \<open>v || EMPTY\<close> is \<open>EMPTY\<close> for \<open>undefined\<close> and for 0.\<close>

definition getTile :: "Level \<Rightarrow> int \<Rightarrow> int \<Rightarrow> int" where
  "getTile level x y =
     (if x < 0 \<or> x \<ge> lv_width level then SOLID
      else if y < 0 \<or> y \<ge> lv_height level then EMPTY
      else (let index = y * lv_width level + x
            in case js_index (tiles level) index of
                 None \<Rightarrow> EMPTY
               | Some v \<Rightarrow> (if v = 0 then EMPTY else v)))"


section \<open>Input intent\<close>

text \<open>
  The fields of \<open>Input\<close> that the game reads.  \<open>in_jumpHeld\<close> is \<open>input.jumpHeld\<close>
  (the player has a field of the same name).
\<close>

record Input =
  moveX :: real
  moveY :: real
  jumpPressed :: bool
  in_jumpHeld :: bool
  pausePressed :: bool
  startPressed :: bool

section \<open>Player controller\<close>

definition PLAYER_WIDTH :: real where
  "PLAYER_WIDTH = 16"

definition PLAYER_HEIGHT :: real where
  "PLAYER_HEIGHT = 16"

definition MOVE_SPEED :: real where
  "MOVE_SPEED = 280"

definition GRAVITY :: real where
  "GRAVITY = 1200"

definition FAST_FALL_MULT :: real where
  "FAST_FALL_MULT = 15 / 10"

definition JUMP_FORCE :: real where
  "JUMP_FORCE = 420"

definition JUMP_CUT_MULT :: real where
  "JUMP_CUT_MULT = 4 / 10"

definition MAX_FALL_SPEED :: real where
  "MAX_FALL_SPEED = 600"

definition WALL_SLIDE_SPEED :: real where
  "WALL_SLIDE_SPEED = 80"

definition WALL_JUMP_FORCE_X :: real where
  "WALL_JUMP_FORCE_X = 320"

definition WALL_JUMP_FORCE_Y :: real where
  "WALL_JUMP_FORCE_Y = 380"

definition WALL_JUMP_COOLDOWN :: real where
  "WALL_JUMP_COOLDOWN = 15 / 100"

definition AIR_CONTROL :: real where
  "AIR_CONTROL = 9 / 10"

definition COYOTE_TIME :: real where
  "COYOTE_TIME = 8 / 100"

definition JUMP_BUFFER_TIME :: real where
  "JUMP_BUFFER_TIME = 1 / 10"

record Player =
  px :: real
  py :: real
  pwidth :: real
  pheight :: real
  vx :: real
  vy :: real
  grounded :: bool
  wallSliding :: bool
  wallDirection :: real
  facingRight :: bool
  jumpHeld :: bool
  canVariableJump :: bool
  coyoteTimer :: real
  jumpBufferTimer :: real
  wallJumpCooldown :: real
  runTimer :: real
  squashStretch :: real

text \<open>\<open>Player.reset()\<close> assigns every field, so it is a constant.\<close>

definition reset :: Player where
  "reset = \<lparr> px = 0, py = 0, pwidth = PLAYER_WIDTH, pheight = PLAYER_HEIGHT,
             vx = 0, vy = 0,
             grounded = False, wallSliding = False, wallDirection = 0, facingRight = True,
             jumpHeld = False, canVariableJump = False,
             coyoteTimer = 0, jumpBufferTimer = 0, wallJumpCooldown = 0,
             runTimer = 0, squashStretch = 1 \<rparr>"

definition lerp :: "real \<Rightarrow> real \<Rightarrow> real \<Rightarrow> real" where
  "lerp a b t = (let t' = max 0 (min 1 t) in a + (b - a) * t')"

definition updateTimers :: "real \<Rightarrow> Player \<Rightarrow> Player" where
  "updateTimers dt p =
     (let p1 = (if coyoteTimer p > 0 then p\<lparr>coyoteTimer := coyoteTimer p - dt\<rparr> else p);
          p2 = (if jumpBufferTimer p1 > 0
                then p1\<lparr>jumpBufferTimer := jumpBufferTimer p1 - dt\<rparr> else p1)
      in if wallJumpCooldown p2 > 0
         then p2\<lparr>wallJumpCooldown := wallJumpCooldown p2 - dt\<rparr> else p2)"

definition handleHorizontalMovement :: "Input \<Rightarrow> real \<Rightarrow> Player \<Rightarrow> Player" where
  "handleHorizontalMovement input dt p =
     (let targetVx = moveX input * MOVE_SPEED
      in if grounded p then p\<lparr>vx := targetVx\<rparr>
         else if \<not> wallSliding p then
           (if moveX input \<noteq> 0 then p\<lparr>vx := lerp (vx p) targetVx AIR_CONTROL\<rparr> else p)
         else p)"

definition checkWallCollision :: "Level \<Rightarrow> real \<Rightarrow> Player \<Rightarrow> bool" where
  "checkWallCollision level direction p =
     (let checkX = px p + direction * (pwidth p / 2 + 2);
          checkY = py p;
          tileX = \<lfloor>checkX / TILE_SIZE\<rfloor>;
          tileY = \<lfloor>checkY / TILE_SIZE\<rfloor>
      in isSolidTile level tileX tileY)"

definition handleWallDetection :: "Input \<Rightarrow> Level \<Rightarrow> Player \<Rightarrow> Player" where
  "handleWallDetection input level p0 =
     (let p = p0\<lparr>wallSliding := False, wallDirection := 0\<rparr>
      in if wallJumpCooldown p > 0 then p
         else if grounded p then p
         else if vy p < 0 then p
         else (let leftWall = checkWallCollision level (- 1) p;
                   rightWall = checkWallCollision level 1 p
               in if leftWall \<and> moveX input < - (1 / 10)
                  then p\<lparr>wallSliding := True, wallDirection := - 1\<rparr>
                  else if rightWall \<and> moveX input > 1 / 10
                  then p\<lparr>wallSliding := True, wallDirection := 1\<rparr>
                  else p))"

definition groundJump :: "Player \<Rightarrow> Player" where
  "groundJump p = p\<lparr>vy := - JUMP_FORCE, grounded := False, coyoteTimer := 0,
                     canVariableJump := True, squashStretch := 7 / 10\<rparr>"

definition wallJump :: "Player \<Rightarrow> Player" where
  "wallJump p = p\<lparr>vx := - wallDirection p * WALL_JUMP_FORCE_X, vy := - WALL_JUMP_FORCE_Y,
                   wallSliding := False, wallJumpCooldown := WALL_JUMP_COOLDOWN,
                   canVariableJump := True, facingRight := (wallDirection p < 0),
                   squashStretch := 7 / 10\<rparr>"

definition handleJumping :: "Input \<Rightarrow> Player \<Rightarrow> Player" where
  "handleJumping input p0 =
     (let p1 = (if jumpPressed input then p0\<lparr>jumpBufferTimer := JUMP_BUFFER_TIME\<rparr> else p0);
          p2 = p1\<lparr>jumpHeld := in_jumpHeld input\<rparr>;
          canGroundJump = (grounded p2 \<or> coyoteTimer p2 > 0);
          canWallJump = wallSliding p2;
          wantToJump = (jumpBufferTimer p2 > 0);
          p3 = (if wantToJump then
                  (if canWallJump then (wallJump p2)\<lparr>jumpBufferTimer := 0\<rparr>
                   else if canGroundJump then (groundJump p2)\<lparr>jumpBufferTimer := 0\<rparr>
                   else p2)
                else p2)
      in if \<not> jumpHeld p3 \<and> canVariableJump p3 \<and> vy p3 < 0
         then p3\<lparr>vy := vy p3 * JUMP_CUT_MULT, canVariableJump := False\<rparr>
         else p3)"

definition applyGravity :: "real \<Rightarrow> Player \<Rightarrow> Player" where
  "applyGravity dt p =
     (let gravity = GRAVITY;
          p1 = (if wallSliding p then
                  (if vy p > WALL_SLIDE_SPEED then p\<lparr>vy := WALL_SLIDE_SPEED\<rparr>
                   else p\<lparr>vy := vy p + gravity * (3 / 10) * dt\<rparr>)
                else
                  (let gravity' = (if vy p > 0 then gravity * FAST_FALL_MULT else gravity)
                   in p\<lparr>vy := vy p + gravity' * dt\<rparr>))
      in if vy p1 > MAX_FALL_SPEED then p1\<lparr>vy := MAX_FALL_SPEED\<rparr> else p1)"

subsection \<open>Collision resolver\<close>

text \<open>
  The player's bounds and the tile range are computed once, before the scan; the scan
  does not recompute them after a push.
\<close>

definition boundLeft :: "Player \<Rightarrow> real" where
  "boundLeft p = px p - pwidth p / 2"

definition boundRight :: "Player \<Rightarrow> real" where
  "boundRight p = px p + pwidth p / 2"

definition boundTop :: "Player \<Rightarrow> real" where
  "boundTop p = py p - pheight p / 2"

definition boundBottom :: "Player \<Rightarrow> real" where
  "boundBottom p = py p + pheight p / 2"

definition tileLeft :: "Player \<Rightarrow> int" where
  "tileLeft p = \<lfloor>boundLeft p / TILE_SIZE\<rfloor>"

definition tileRight :: "Player \<Rightarrow> int" where
  "tileRight p = \<lfloor>boundRight p / TILE_SIZE\<rfloor>"

definition tileTop :: "Player \<Rightarrow> int" where
  "tileTop p = \<lfloor>boundTop p / TILE_SIZE\<rfloor>"

definition tileBottom :: "Player \<Rightarrow> int" where
  "tileBottom p = \<lfloor>boundBottom p / TILE_SIZE\<rfloor>"

text \<open>The signed horizontal push against tile column \<open>tx\<close>, from the bounds.\<close>

definition minOverlapX :: "real \<Rightarrow> real \<Rightarrow> int \<Rightarrow> real" where
  "minOverlapX pleft pright tx =
     (let tileX = real_of_int tx * TILE_SIZE;
          overlapLeft = pright - tileX;
          overlapRight = (tileX + TILE_SIZE) - pleft
      in if overlapLeft < overlapRight then - overlapLeft else overlapRight)"

text \<open>The signed vertical push against tile row \<open>ty\<close>; negative is upward.\<close>

definition minOverlapY :: "real \<Rightarrow> real \<Rightarrow> int \<Rightarrow> real" where
  "minOverlapY ptop pbottom ty =
     (let tileY = real_of_int ty * TILE_SIZE;
          overlapTop = pbottom - tileY;
          overlapBottom = (tileY + TILE_SIZE) - ptop
      in if overlapTop < overlapBottom then - overlapTop else overlapBottom)"

text \<open>The body of the inner loop, for one tile.\<close>

definition resolveTile ::
  "Level \<Rightarrow> real \<Rightarrow> real \<Rightarrow> real \<Rightarrow> real \<Rightarrow> int \<Rightarrow> int \<Rightarrow> Player \<Rightarrow> Player" where
  "resolveTile level pleft pright ptop pbottom tx ty p =
     (if \<not> isSolidTile level tx ty then p
      else (let mx = minOverlapX pleft pright tx;
                my = minOverlapY ptop pbottom ty
            in if \<bar>mx\<bar> < \<bar>my\<bar> then p\<lparr>px := px p + mx, vx := 0\<rparr>
               else (let p1 = p\<lparr>py := py p + my\<rparr>;
                         p2 = (if my < 0
                               then p1\<lparr>grounded := True, coyoteTimer := COYOTE_TIME\<rparr>
                               else p1)
                     in p2\<lparr>vy := 0\<rparr>)))"

text \<open>\<open>for (let tx = tileLeft; tx <= tileRight; tx++)\<close>\<close>

function scanRow ::
  "Level \<Rightarrow> real \<Rightarrow> real \<Rightarrow> real \<Rightarrow> real \<Rightarrow> int \<Rightarrow> int \<Rightarrow> int \<Rightarrow> Player \<Rightarrow> Player" where
  "scanRow level pleft pright ptop pbottom ty tx txMax p =
     (if tx \<le> txMax
      then scanRow level pleft pright ptop pbottom ty (tx + 1) txMax
             (resolveTile level pleft pright ptop pbottom tx ty p)
      else p)"
  by pat_completeness auto
termination
  by (relation "measure (\<lambda>(level, pleft, pright, ptop, pbottom, ty, tx, txMax, p).
        nat (txMax + 1 - tx))") auto

text \<open>\<open>for (let ty = tileTop; ty <= tileBottom; ty++)\<close>\<close>

function scanRows ::
  "Level \<Rightarrow> real \<Rightarrow> real \<Rightarrow> real \<Rightarrow> real \<Rightarrow> int \<Rightarrow> int \<Rightarrow> int \<Rightarrow> int \<Rightarrow> Player \<Rightarrow> Player" where
  "scanRows level pleft pright ptop pbottom txMin txMax ty tyMax p =
     (if ty \<le> tyMax
      then scanRows level pleft pright ptop pbottom txMin txMax (ty + 1) tyMax
             (scanRow level pleft pright ptop pbottom ty txMin txMax p)
      else p)"
  by pat_completeness auto
termination
  by (relation "measure (\<lambda>(level, pleft, pright, ptop, pbottom, txMin, txMax, ty, tyMax, p).
        nat (tyMax + 1 - ty))") auto

declare scanRow.simps [simp del]
declare scanRows.simps [simp del]

definition resolveCollisions :: "Level \<Rightarrow> Player \<Rightarrow> Player" where
  "resolveCollisions level p0 =
     (let p = p0\<lparr>grounded := False\<rparr>
      in scanRows level (boundLeft p) (boundRight p) (boundTop p) (boundBottom p)
           (tileLeft p) (tileRight p) (tileTop p) (tileBottom p) p)"

definition updateAnimation :: "real \<Rightarrow> Player \<Rightarrow> Player" where
  "updateAnimation dt p =
     (let p1 = (if grounded p \<and> \<bar>vx p\<bar> > 10
                then p\<lparr>runTimer := runTimer p + dt * \<bar>vx p\<bar> / 100\<rparr> else p)
      in p1\<lparr>squashStretch := lerp (squashStretch p1) 1 (10 * dt)\<rparr>)"

definition onLand :: "Player \<Rightarrow> Player" where
  "onLand p = p\<lparr>squashStretch := 13 / 10, coyoteTimer := COYOTE_TIME\<rparr>"

text \<open>\<open>Player.update(input, level, dt)\<close>\<close>

definition Player_update :: "Input \<Rightarrow> Level \<Rightarrow> real \<Rightarrow> Player \<Rightarrow> Player" where
  "Player_update input level dt p0 =
     (let wasGrounded = grounded p0;
          p1 = updateTimers dt p0;
          p2 = handleHorizontalMovement input dt p1;
          p3 = handleWallDetection input level p2;
          p4 = handleJumping input p3;
          p5 = applyGravity dt p4;
          p6 = p5\<lparr>px := px p5 + vx p5 * dt\<rparr>;
          p7 = p6\<lparr>py := py p6 + vy p6 * dt\<rparr>;
          p8 = resolveCollisions level p7;
          p9 = (if grounded p8 \<and> \<not> wasGrounded then onLand p8 else p8);
          p10 = (if vx p9 > 10 then p9\<lparr>facingRight := True\<rparr>
                 else if vx p9 < - 10 then p9\<lparr>facingRight := False\<rparr>
                 else p9)
      in updateAnimation dt p10)"


section \<open>Level loading\<close>

text \<open>
  \<open>loadLevel\<close> receives the text of a level file and runs \<open>JSON.parse\<close> on it.  The
  parser is not part of the repository: the model starts from the parsed object, typed
  after the documented schema, with \<open>None\<close> for an absent field.
\<close>

record SpawnJson =
  sj_x :: "real option"
  sj_y :: "real option"

record RectJson =
  rj_x :: "real option"
  rj_y :: "real option"
  rj_width :: "real option"
  rj_height :: "real option"

record LevelJson =
  j_name :: "string option"
  j_par_time :: "real option"
  j_width :: "int option"
  j_height :: "int option"
  j_tiles :: "int list list option"
  j_spawn :: "SpawnJson option"
  j_goal :: "RectJson option"
  j_hazards :: "RectJson list option"
  j_background_color :: "real list option"

text \<open>\<open>v || d\<close> on numbers: \<open>undefined\<close> and 0 are falsy.\<close>

definition or_real :: "real option \<Rightarrow> real \<Rightarrow> real" where
  "or_real v d = (case v of None \<Rightarrow> d | Some a \<Rightarrow> (if a = 0 then d else a))"

definition or_int :: "int option \<Rightarrow> int \<Rightarrow> int" where
  "or_int v d = (case v of None \<Rightarrow> d | Some a \<Rightarrow> (if a = 0 then d else a))"

text \<open>\<open>v || d\<close> on strings: \<open>undefined\<close> and the empty string are falsy.\<close>

definition or_string :: "string option \<Rightarrow> string \<Rightarrow> string" where
  "or_string v d = (case v of None \<Rightarrow> d | Some a \<Rightarrow> (if a = [] then d else a))"

text \<open>\<open>new Level()\<close>\<close>

definition newLevel :: Level where
  "newLevel = \<lparr> lv_width = 0, lv_height = 0, tiles = [], hazards = [],
                spawnX = 0, spawnY = 0,
                goalRect = \<lparr> rect_x = 0, rect_y = 0, rect_width = 0, rect_height = 0 \<rparr>,
                backgroundColor = \<lparr> col_r = 25, col_g = 25, col_b = 40 \<rparr>,
                lv_name = ''Unnamed Level'', parTime = 30 \<rparr>"

text \<open>
  The inner loop of the tile parser: cells \<open>x, x + 1, \<dots>\<close> of one row, clipped to the
  declared width.
\<close>

fun parseRow :: "int \<Rightarrow> int \<Rightarrow> int \<Rightarrow> int list \<Rightarrow> int list \<Rightarrow> int list" where
  "parseRow w y x [] ts = ts"
| "parseRow w y x (c # row) ts =
     (if x < w then parseRow w y (x + 1) row (ts[nat (y * w + x) := c]) else ts)"

text \<open>The outer loop: rows \<open>y, y + 1, \<dots>\<close>, clipped to the declared height.\<close>

fun parseRows :: "int \<Rightarrow> int \<Rightarrow> int \<Rightarrow> int list list \<Rightarrow> int list \<Rightarrow> int list" where
  "parseRows w h y [] ts = ts"
| "parseRows w h y (row # rows) ts =
     (if y < h then parseRows w h (y + 1) rows (parseRow w y 0 row ts) else ts)"

definition parseHazard :: "RectJson \<Rightarrow> Rect" where
  "parseHazard hazard =
     \<lparr> rect_x = or_real (rj_x hazard) 0 * TILE_SIZE,
       rect_y = or_real (rj_y hazard) 0 * TILE_SIZE,
       rect_width = or_real (rj_width hazard) 1 * TILE_SIZE,
       rect_height = or_real (rj_height hazard) 1 * TILE_SIZE \<rparr>"

text \<open>
  The stages of \<open>loadLevel\<close> after the allocation of the tile array, in the order of
  the source: tile grid, spawn point, goal, hazards, background colour.
\<close>

definition parseTiles :: "LevelJson \<Rightarrow> Level \<Rightarrow> Level" where
  "parseTiles data level =
     (case j_tiles data of
        None \<Rightarrow> level
      | Some rows \<Rightarrow>
          level\<lparr> tiles := parseRows (lv_width level) (lv_height level) 0 rows (tiles level) \<rparr>)"

definition parseSpawn :: "LevelJson \<Rightarrow> Level \<Rightarrow> Level" where
  "parseSpawn data level =
     (case j_spawn data of
        Some spawn \<Rightarrow>
          level\<lparr> spawnX := or_real (sj_x spawn) 2 * TILE_SIZE + TILE_SIZE / 2,
                  spawnY := or_real (sj_y spawn) 2 * TILE_SIZE + TILE_SIZE / 2 \<rparr>
      | None \<Rightarrow>
          level\<lparr> spawnX := 2 * TILE_SIZE + TILE_SIZE / 2,
                  spawnY := 2 * TILE_SIZE + TILE_SIZE / 2 \<rparr>)"

definition parseGoal :: "LevelJson \<Rightarrow> Level \<Rightarrow> Level" where
  "parseGoal data level =
     (case j_goal data of
        Some goal \<Rightarrow>
          level\<lparr> goalRect :=
                    \<lparr> rect_x = or_real (rj_x goal) 38 * TILE_SIZE,
                      rect_y = or_real (rj_y goal) 20 * TILE_SIZE,
                      rect_width = or_real (rj_width goal) 2 * TILE_SIZE,
                      rect_height = or_real (rj_height goal) 2 * TILE_SIZE \<rparr> \<rparr>
      | None \<Rightarrow> level)"

definition parseHazards :: "LevelJson \<Rightarrow> Level \<Rightarrow> Level" where
  "parseHazards data level =
     (case j_hazards data of
        Some hs \<Rightarrow> level\<lparr> hazards := hazards level @ map parseHazard hs \<rparr>
      | None \<Rightarrow> level)"

definition parseBackgroundColor :: "LevelJson \<Rightarrow> Level \<Rightarrow> Level" where
  "parseBackgroundColor data level =
     (case j_background_color data of
        Some (r # g # b # rest) \<Rightarrow>
          level\<lparr> backgroundColor := \<lparr> col_r = r, col_g = g, col_b = b \<rparr> \<rparr>
      | _ \<Rightarrow> level)"

text \<open>
  \<open>loadLevel\<close>: the argument is the outcome of \<open>JSON.parse\<close>, \<open>None\<close> when it throws;
  the result is \<open>None\<close> for the source's \<open>null\<close>.  \<open>new Array(n)\<close> throws a
  \<open>RangeError\<close>, caught by the same handler, unless \<open>0 \<le> n < 2^32\<close>.
\<close>

definition loadLevel :: "LevelJson option \<Rightarrow> Level option" where
  "loadLevel parsed =
     (case parsed of
        None \<Rightarrow> None
      | Some data \<Rightarrow>
          (let level = newLevel\<lparr> lv_name := or_string (j_name data) ''Unnamed Level'',
                                 parTime := or_real (j_par_time data) 30,
                                 lv_width := or_int (j_width data) 40,
                                 lv_height := or_int (j_height data) 23 \<rparr>;
               tileCount = lv_width level * lv_height level
           in if tileCount < 0 \<or> tileCount \<ge> 4294967296 then None
              else Some (parseBackgroundColor data (parseHazards data (parseGoal data
                     (parseSpawn data (parseTiles data
                        (level\<lparr> tiles := replicate (nat tileCount) EMPTY \<rparr>))))))))"

section \<open>Camera and particles\<close>

record Camera =
  cam_x :: real
  cam_y :: real
  targetX :: real
  targetY :: real
  zoom :: real
  shakeAmount :: real
  shakeTimer :: real

definition FOLLOW_SPEED :: real where
  "FOLLOW_SPEED = 8"

definition LOOK_AHEAD :: real where
  "LOOK_AHEAD = 50"

definition newCamera :: Camera where
  "newCamera = \<lparr> cam_x = 0, cam_y = 0, targetX = 0, targetY = 0, zoom = 1,
                 shakeAmount = 0, shakeTimer = 0 \<rparr>"

text \<open>
  \<open>Math.random()\<close> is modelled by a sequence \<open>rnd\<close>: \<open>rnd k\<close> is the value of the
  \<open>k\<close>-th call made during one \<open>Game.update\<close>.  The runtime draws from \<open>[0, 1)\<close>.
\<close>

definition Camera_update :: "(nat \<Rightarrow> real) \<Rightarrow> Player \<Rightarrow> real \<Rightarrow> Camera \<Rightarrow> Camera" where
  "Camera_update rnd player dt c0 =
     (let lookAhead = (if facingRight player then LOOK_AHEAD else - LOOK_AHEAD);
          c1 = c0\<lparr>targetX := px player + lookAhead, targetY := py player\<rparr>;
          c2 = c1\<lparr>cam_x := cam_x c1 + (targetX c1 - cam_x c1) * FOLLOW_SPEED * dt\<rparr>;
          c3 = c2\<lparr>cam_y := cam_y c2 + (targetY c2 - cam_y c2) * FOLLOW_SPEED * dt\<rparr>
      in if shakeTimer c3 > 0 then
           (let c4 = c3\<lparr>shakeTimer := shakeTimer c3 - dt\<rparr>;
                shakeX = (rnd 0 * 2 - 1) * shakeAmount c4;
                shakeY = (rnd 1 * 2 - 1) * shakeAmount c4
            in c4\<lparr>cam_x := cam_x c4 + shakeX, cam_y := cam_y c4 + shakeY,
                   shakeAmount := shakeAmount c4 * (9 / 10)\<rparr>)
         else c3)"

record Particle =
  pt_x :: real
  pt_y :: real
  pt_vx :: real
  pt_vy :: real
  life :: real
  maxLife :: real
  pt_size :: real
  pt_r :: real
  pt_g :: real
  pt_b :: real
  pt_a :: real

text \<open>
  \<open>new Particle(x, y)\<close> makes four calls of \<open>Math.random()\<close>, here \<open>rnd k\<close> to
  \<open>rnd (k + 3)\<close>.
\<close>

definition newParticle :: "(nat \<Rightarrow> real) \<Rightarrow> nat \<Rightarrow> real \<Rightarrow> real \<Rightarrow> Particle" where
  "newParticle rnd k x y =
     (let angle = rnd k * pi * 2;
          speed = 100 + rnd (k + 1) * 200;
          l = 3 / 10 + rnd (k + 2) * (5 / 10)
      in \<lparr> pt_x = x, pt_y = y,
           pt_vx = cos angle * speed, pt_vy = sin angle * speed,
           life = l, maxLife = l, pt_size = 3 + rnd (k + 3) * 5,
           pt_r = 230, pt_g = 50, pt_b = 25, pt_a = 255 \<rparr>)"

text \<open>
  \<open>Particle.update(dt)\<close> returns whether the particle is still alive, and the particle
  as it has changed.
\<close>

definition Particle_update :: "real \<Rightarrow> Particle \<Rightarrow> bool \<times> Particle" where
  "Particle_update dt p0 =
     (let p1 = p0\<lparr>life := life p0 - dt\<rparr>
      in if life p1 \<le> 0 then (False, p1)
         else (let p2 = p1\<lparr>pt_vy := pt_vy p1 + 500 * dt\<rparr>;
                   p3 = p2\<lparr>pt_x := pt_x p2 + pt_vx p2 * dt\<rparr>;
                   p4 = p3\<lparr>pt_y := pt_y p3 + pt_vy p3 * dt\<rparr>
               in (True, p4\<lparr>pt_a := real_of_int \<lfloor>life p4 / maxLife p4 * 255\<rfloor>\<rparr>)))"

section \<open>Session state machine\<close>

datatype GameState = MENU | PLAYING | PAUSED | DEAD | LEVEL_COMPLETE

text \<open>
  \<open>Game.level\<close> starts as \<open>null\<close>; \<open>init\<close> in \<open>main.js\<close> installs a level
  (\<open>setLevel\<close> or \<open>createDefaultLevel\<close>) before the first \<open>update\<close>, so the field
  holds a level here.
\<close>

record Game =
  state :: GameState
  player :: Player
  level :: Level
  currentLevelIndex :: int
  levelTime :: real
  deathCount :: int
  totalTime :: real
  deathTimer :: real
  camera :: Camera
  particles :: "Particle list"

definition DEATH_RESPAWN_TIME :: real where
  "DEATH_RESPAWN_TIME = 5 / 10"

text \<open>
  What one \<open>Game.update\<close> reads from outside: \<open>std.loadFile\<close> on
  \<open>assets/levels/level<n>.json\<close> (\<open>None\<close> when the result is falsy, else the outcome
  of \<open>JSON.parse\<close> on the text), and the values \<open>Math.random()\<close> returns.
\<close>

record Env =
  loadFile :: "int \<Rightarrow> LevelJson option option"
  random :: "nat \<Rightarrow> real"

definition getPlayerRect :: "Game \<Rightarrow> Rect" where
  "getPlayerRect g =
     \<lparr> rect_x = px (player g) - pwidth (player g) / 2,
       rect_y = py (player g) - pheight (player g) / 2,
       rect_width = pwidth (player g),
       rect_height = pheight (player g) \<rparr>"

definition rectsOverlap :: "Rect \<Rightarrow> Rect \<Rightarrow> bool" where
  "rectsOverlap a b =
     (rect_x a < rect_x b + rect_width b \<and>
      rect_x a + rect_width a > rect_x b \<and>
      rect_y a < rect_y b + rect_height b \<and>
      rect_y a + rect_height a > rect_y b)"

text \<open>The loop over the hazards returns at the first overlap.\<close>

fun anyHazard :: "Rect \<Rightarrow> Rect list \<Rightarrow> bool" where
  "anyHazard playerRect [] = False"
| "anyHazard playerRect (hazard # rest) =
     (if rectsOverlap playerRect hazard then True else anyHazard playerRect rest)"

definition checkHazardCollision :: "Game \<Rightarrow> bool" where
  "checkHazardCollision g =
     (let playerRect = getPlayerRect g
      in if anyHazard playerRect (hazards (level g)) then True
         else if py (player g) > real_of_int (lv_height (level g)) * TILE_SIZE + 100 then True
         else False)"

definition checkGoalCollision :: "Game \<Rightarrow> bool" where
  "checkGoalCollision g = rectsOverlap (getPlayerRect g) (goalRect (level g))"

definition spawnPlayer :: "Game \<Rightarrow> Game" where
  "spawnPlayer g =
     (let p = reset\<lparr> px := spawnX (level g), py := spawnY (level g),
                     pwidth := PLAYER_WIDTH, pheight := PLAYER_HEIGHT,
                     facingRight := True \<rparr>
      in g\<lparr> player := p,
            camera := (camera g)\<lparr> cam_x := px p, cam_y := py p,
                                  targetX := px p, targetY := py p \<rparr> \<rparr>)"

definition respawnPlayer :: "Game \<Rightarrow> Game" where
  "respawnPlayer g = spawnPlayer g"

text \<open>\<open>for (let i = 0; i < PARTICLE_COUNT; i++) this.particles.push(new Particle(x, y))\<close>\<close>

definition PARTICLE_COUNT :: nat where
  "PARTICLE_COUNT = 20"

function pushParticles ::
  "(nat \<Rightarrow> real) \<Rightarrow> real \<Rightarrow> real \<Rightarrow> nat \<Rightarrow> Particle list \<Rightarrow> Particle list" where
  "pushParticles rnd x y i ps =
     (if i < PARTICLE_COUNT
      then pushParticles rnd x y (i + 1) (ps @ [newParticle rnd (4 * i) x y])
      else ps)"
  by pat_completeness auto
termination
  by (relation "measure (\<lambda>(rnd, x, y, i, ps). PARTICLE_COUNT - i)") auto

declare pushParticles.simps [simp del]

definition spawnDeathParticles :: "(nat \<Rightarrow> real) \<Rightarrow> real \<Rightarrow> real \<Rightarrow> Game \<Rightarrow> Game" where
  "spawnDeathParticles rnd x y g = g\<lparr> particles := pushParticles rnd x y 0 (particles g) \<rparr>"

definition killPlayer :: "(nat \<Rightarrow> real) \<Rightarrow> Game \<Rightarrow> Game" where
  "killPlayer rnd g0 =
     (let g1 = g0\<lparr> state := DEAD, deathCount := deathCount g0 + 1,
                    deathTimer := DEATH_RESPAWN_TIME \<rparr>;
          g2 = spawnDeathParticles rnd (px (player g1)) (py (player g1)) g1
      in g2\<lparr> camera := (camera g2)\<lparr> shakeAmount := 5, shakeTimer := 3 / 10 \<rparr> \<rparr>)"

definition completeLevel :: "Game \<Rightarrow> Game" where
  "completeLevel g = g\<lparr> state := LEVEL_COMPLETE \<rparr>"

text \<open>\<open>this.particles = this.particles.filter(p => p.update(dt))\<close>\<close>

definition updateParticles :: "real \<Rightarrow> Game \<Rightarrow> Game" where
  "updateParticles dt g =
     g\<lparr> particles := map snd (filter fst (map (Particle_update dt) (particles g))) \<rparr>"

definition updateMenu :: "Input \<Rightarrow> Game \<Rightarrow> Game" where
  "updateMenu input g =
     (if jumpPressed input \<or> startPressed input
      then spawnPlayer (g\<lparr> state := PLAYING \<rparr>)
      else g)"

definition updatePlaying :: "Env \<Rightarrow> Input \<Rightarrow> real \<Rightarrow> Game \<Rightarrow> Game" where
  "updatePlaying env input dt g0 =
     (if pausePressed input then g0\<lparr> state := PAUSED \<rparr>
      else (let g1 = g0\<lparr> player := Player_update input (level g0) dt (player g0) \<rparr>
            in if checkHazardCollision g1 then killPlayer (random env) g1
               else if checkGoalCollision g1 then completeLevel g1
               else (let g2 = g1\<lparr> camera := Camera_update (random env) (player g1) dt
                                                (camera g1) \<rparr>;
                         g3 = g2\<lparr> levelTime := levelTime g2 + dt \<rparr>
                     in g3\<lparr> totalTime := totalTime g3 + dt \<rparr>)))"

definition updateDead :: "real \<Rightarrow> Game \<Rightarrow> Game" where
  "updateDead dt g0 =
     (let g1 = g0\<lparr> deathTimer := deathTimer g0 - dt \<rparr>
      in if deathTimer g1 \<le> 0 then (respawnPlayer g1)\<lparr> state := PLAYING \<rparr> else g1)"

definition updateLevelComplete :: "Env \<Rightarrow> Input \<Rightarrow> Game \<Rightarrow> Game" where
  "updateLevelComplete env input g0 =
     (if jumpPressed input \<or> startPressed input then
        (let g1 = g0\<lparr> currentLevelIndex := currentLevelIndex g0 + 1 \<rparr>;
             g2 = (case loadFile env (currentLevelIndex g1 + 1) of
                     Some levelData \<Rightarrow>
                       (case loadLevel levelData of
                          Some lv \<Rightarrow> g1\<lparr> level := lv \<rparr>
                        | None \<Rightarrow> g1)
                   | None \<Rightarrow>
                       (let g1' = g1\<lparr> currentLevelIndex := 0 \<rparr>
                        in case loadFile env 1 of
                             Some levelData \<Rightarrow>
                               (case loadLevel levelData of
                                  Some lv \<Rightarrow> g1'\<lparr> level := lv \<rparr>
                                | None \<Rightarrow> g1')
                           | None \<Rightarrow> g1'));
             g3 = spawnPlayer g2;
             g4 = g3\<lparr> levelTime := 0 \<rparr>
         in g4\<lparr> state := PLAYING \<rparr>)
      else g0)"

text \<open>\<open>Game.update(input, dt)\<close>\<close>

definition Game_update :: "Env \<Rightarrow> Input \<Rightarrow> real \<Rightarrow> Game \<Rightarrow> Game" where
  "Game_update env input dt g0 =
     (let g1 = (case state g0 of
                  MENU \<Rightarrow> updateMenu input g0
                | PLAYING \<Rightarrow> updatePlaying env input dt g0
                | DEAD \<Rightarrow> updateDead dt g0
                | LEVEL_COMPLETE \<Rightarrow> updateLevelComplete env input g0
                | PAUSED \<Rightarrow> (if pausePressed input then g0\<lparr> state := PLAYING \<rparr> else g0))
      in updateParticles dt g1)"


text \<open>
  The main loop calls \<open>Game.update\<close> once per frame.  A frame is what the call reads
  from outside, the input intent and \<open>dt\<close>.
\<close>

fun runFrames :: "(Env \<times> Input \<times> real) list \<Rightarrow> Game \<Rightarrow> Game" where
  "runFrames [] g = g"
| "runFrames ((env, input, dt) # frames) g = runFrames frames (Game_update env input dt g)"

text \<open>\<open>new Game()\<close> followed by \<open>setLevel(lv)\<close>.\<close>

definition newGame :: "Level \<Rightarrow> Game" where
  "newGame lv = \<lparr> state = MENU, player = reset, level = lv, currentLevelIndex = 0,
                  levelTime = 0, deathCount = 0, totalTime = 0, deathTimer = 0,
                  camera = newCamera, particles = [] \<rparr>"

section \<open>Concrete inputs\<close>

text \<open>Levels, players and inputs at which the properties below are evaluated.\<close>

definition solo :: Level where
  "solo = newLevel\<lparr> lv_width := 1, lv_height := 1, tiles := [0] \<rparr>"

definition noInput :: Input where
  "noInput = \<lparr> moveX = 0, moveY = 0, jumpPressed = False, in_jumpHeld = False,
               pausePressed = False, startPressed = False \<rparr>"

definition holdJump :: Input where
  "holdJump = noInput\<lparr> in_jumpHeld := True \<rparr>"

definition slider :: Player where
  "slider = reset\<lparr> wallSliding := True, wallDirection := 1, vy := 80 \<rparr>"

definition ticking :: Player where
  "ticking = reset\<lparr> coyoteTimer := 5 / 100, jumpBufferTimer := 1 / 10,
                     wallJumpCooldown := 15 / 100 \<rparr>"

definition rising :: Player where
  "rising = reset\<lparr> vy := - 420, canVariableJump := True, jumpHeld := True \<rparr>"

definition onWall :: Player where
  "onWall = reset\<lparr> wallSliding := True, wallDirection := 1, vy := 40,
                    jumpBufferTimer := 5 / 100, facingRight := True \<rparr>"

text \<open>The level file shown in the README, without its tile rows.\<close>

definition readmeJson :: LevelJson where
  "readmeJson = \<lparr> j_name = Some ''Level Name'', j_par_time = Some 15,
                  j_width = Some 40, j_height = Some 23, j_tiles = None,
                  j_spawn = Some \<lparr> sj_x = Some 3, sj_y = Some 19 \<rparr>,
                  j_goal = Some \<lparr> rj_x = Some 36, rj_y = Some 3, rj_width = Some 2,
                                  rj_height = Some 3 \<rparr>,
                  j_hazards = Some [\<lparr> rj_x = Some 6, rj_y = Some 20, rj_width = Some 3,
                                       rj_height = Some 1 \<rparr>],
                  j_background_color = Some [25, 25, 40] \<rparr>"

text \<open>The level that \<open>loadLevel\<close> builds from \<open>readmeJson\<close>.\<close>

definition readmeLevel :: Level where
  "readmeLevel =
     \<lparr> lv_width = 40, lv_height = 23, tiles = replicate 920 0,
       hazards = [\<lparr> rect_x = 96, rect_y = 320, rect_width = 48, rect_height = 16 \<rparr>],
       spawnX = 56, spawnY = 312,
       goalRect = \<lparr> rect_x = 576, rect_y = 48, rect_width = 32, rect_height = 48 \<rparr>,
       backgroundColor = \<lparr> col_r = 25, col_g = 25, col_b = 40 \<rparr>,
       lv_name = ''Level Name'', parTime = 15 \<rparr>"

text \<open>A grid of three by three tiles whose bottom row is solid, and a player one unit into it.\<close>

definition floorLevel :: Level where
  "floorLevel = newLevel\<lparr> lv_width := 3, lv_height := 3,
                           tiles := [0, 0, 0, 0, 0, 0, 1, 1, 1] \<rparr>"

definition sinking :: Player where
  "sinking = reset\<lparr> px := 24, py := 25, vy := 60 \<rparr>"

text \<open>
  A room of four by four empty tiles.  The player spawns at (24, 24); a hazard contains
  the spawn rectangle and the goal overlaps it.  \<open>exitRoom\<close> is the same room without
  the hazard.
\<close>

definition spikes :: Rect where
  "spikes = \<lparr> rect_x = 8, rect_y = 8, rect_width = 32, rect_height = 40 \<rparr>"

definition pit :: Level where
  "pit = newLevel\<lparr> lv_width := 4, lv_height := 4,
                     tiles := [0, 0, 0, 0, 0, 0, 0, 0, 0, 0, 0, 0, 0, 0, 0, 0],
                     hazards := [spikes],
                     spawnX := 24, spawnY := 24,
                     goalRect := \<lparr> rect_x = 24, rect_y = 24, rect_width = 16, rect_height = 16 \<rparr> \<rparr>"

definition exitRoom :: Level where
  "exitRoom = pit\<lparr> hazards := [] \<rparr>"

text \<open>\<open>pit\<close> with its two lower rows solid: the spawned player stands on a floor.\<close>

definition floorPit :: Level where
  "floorPit = pit\<lparr> tiles := [0, 0, 0, 0, 0, 0, 0, 0, 1, 1, 1, 1, 1, 1, 1, 1] \<rparr>"

text \<open>The frame that leaves the menu: jump pressed on a new game.\<close>

definition pressJump :: Input where
  "pressJump = \<lparr> moveX = 0, moveY = 0, jumpPressed = True, in_jumpHeld = True,
                 pausePressed = False, startPressed = False \<rparr>"

definition started :: "Level \<Rightarrow> Game" where
  "started lv = updateMenu pressJump (newGame lv)"

text \<open>No level file on disk, and \<open>Math.random()\<close> returning 0.\<close>

definition quietEnv :: Env where
  "quietEnv = \<lparr> loadFile = (\<lambda>n. None), random = (\<lambda>k. 0) \<rparr>"

text \<open>Holding right and jump.\<close>

definition runRight :: Input where
  "runRight = \<lparr> moveX = 1, moveY = 0, jumpPressed = False, in_jumpHeld = True,
                pausePressed = False, startPressed = False \<rparr>"

text \<open>Players in mid-jump with a buffered jump request, on the ground and on a wall.\<close>

definition risingOnGround :: Player where
  "risingOnGround = rising\<lparr> grounded := True, jumpBufferTimer := 5 / 100 \<rparr>"

definition risingOnWall :: Player where
  "risingOnWall = rising\<lparr> wallSliding := True, wallDirection := 1, jumpBufferTimer := 5 / 100 \<rparr>"

section \<open>Level queries\<close>

text \<open>
  Claim C2, as the code has it.  Outside the horizontal range both queries answer Solid,
  whatever \<open>y\<close> is: the horizontal test comes first in both functions.  The vertical
  rules therefore hold for columns inside \<open>[0, width)\<close> only: above the grid
  (\<open>y < 0\<close>) \<open>isSolidTile\<close> is true and \<open>getTile\<close> is Empty; below it
  (\<open>y \<ge> height\<close>, \<open>y \<ge> 0\<close>) \<open>isSolidTile\<close> is false and \<open>getTile\<close> is Empty.
\<close>

theorem tile_queries_out_of_bounds:
  "(x < 0 \<or> x \<ge> lv_width lv \<longrightarrow>
      isSolidTile lv x y \<and> getTile lv x y = SOLID) \<and>
   (0 \<le> x \<and> x < lv_width lv \<and> y < 0 \<longrightarrow>
      isSolidTile lv x y \<and> getTile lv x y = EMPTY) \<and>
   (0 \<le> x \<and> x < lv_width lv \<and> 0 \<le> y \<and> y \<ge> lv_height lv \<longrightarrow>
      \<not> isSolidTile lv x y \<and> getTile lv x y = EMPTY)"
  by (simp add: isSolidTile_def getTile_def)

text \<open>The three rules of C2 on a level of one tile.\<close>

theorem tile_queries_out_of_bounds_witness:
  "((- 1 :: int) < 0 \<and> isSolidTile solo (- 1) 0 \<and> getTile solo (- 1) 0 = SOLID) \<and>
   ((0 :: int) < lv_width solo \<and> (- 1 :: int) < 0 \<and>
      isSolidTile solo 0 (- 1) \<and> getTile solo 0 (- 1) = EMPTY) \<and>
   ((0 :: int) < lv_width solo \<and> (1 :: int) \<ge> lv_height solo \<and>
      \<not> isSolidTile solo 0 1 \<and> getTile solo 0 1 = EMPTY)"
  using tile_queries_out_of_bounds [of "- 1" solo 0]
        tile_queries_out_of_bounds [of 0 solo "- 1"]
        tile_queries_out_of_bounds [of 0 solo 1]
  by (simp add: solo_def newLevel_def)

text \<open>
  C2 as worded fails left of the grid: at \<open>(-1, 1)\<close> on a level of height 1 the row is
  below the grid, yet \<open>isSolidTile\<close> is true and \<open>getTile\<close> is Solid, not Empty.
\<close>

theorem tile_queries_vertical_counterexample:
  "(1 :: int) \<ge> lv_height solo \<and> isSolidTile solo (- 1) 1 \<and> getTile solo (- 1) 1 \<noteq> EMPTY"
  by (simp add: solo_def newLevel_def isSolidTile_def getTile_def SOLID_def EMPTY_def)

section \<open>Gravity on a wall\<close>

text \<open>
  Claim C3 says that a wall-sliding player leaves \<open>applyGravity\<close> with \<open>vy\<close> at most
  the slide speed 80.  The code clamps before it adds: a player sliding at exactly 80
  is not above the ceiling, receives the reduced gravity, and leaves the frame of 1/60
  second at 86.
\<close>

theorem applyGravity_wall_slide_overshoot:
  "wallSliding slider \<and> vy slider = WALL_SLIDE_SPEED \<and>
   vy (applyGravity (1 / 60) slider) = 86 \<and>
   vy (applyGravity (1 / 60) slider) > WALL_SLIDE_SPEED"
  by (simp add: slider_def reset_def applyGravity_def Let_def GRAVITY_def WALL_SLIDE_SPEED_def
      MAX_FALL_SPEED_def)

section \<open>Timers\<close>

text \<open>
  Claim C4, as the code has it.  For \<open>dt > 0\<close> each of the three timers is decreased by
  \<open>dt\<close> when it is positive and left alone otherwise; nothing floors it at zero.  It is
  positive afterwards exactly when the floored countdown \<open>max 0 (t - dt)\<close> is, and a
  timer that was not negative ends above \<open>- dt\<close>.
\<close>

theorem updateTimers_countdown:
  assumes "0 < dt"
  shows "coyoteTimer (updateTimers dt p) =
           (if coyoteTimer p > 0 then coyoteTimer p - dt else coyoteTimer p) \<and>
         jumpBufferTimer (updateTimers dt p) =
           (if jumpBufferTimer p > 0 then jumpBufferTimer p - dt else jumpBufferTimer p) \<and>
         wallJumpCooldown (updateTimers dt p) =
           (if wallJumpCooldown p > 0 then wallJumpCooldown p - dt else wallJumpCooldown p) \<and>
         (coyoteTimer (updateTimers dt p) > 0 \<longleftrightarrow> max 0 (coyoteTimer p - dt) > 0) \<and>
         (jumpBufferTimer (updateTimers dt p) > 0 \<longleftrightarrow> max 0 (jumpBufferTimer p - dt) > 0) \<and>
         (wallJumpCooldown (updateTimers dt p) > 0 \<longleftrightarrow> max 0 (wallJumpCooldown p - dt) > 0) \<and>
         (0 \<le> coyoteTimer p \<longrightarrow> - dt < coyoteTimer (updateTimers dt p)) \<and>
         (0 \<le> jumpBufferTimer p \<longrightarrow> - dt < jumpBufferTimer (updateTimers dt p)) \<and>
         (0 \<le> wallJumpCooldown p \<longrightarrow> - dt < wallJumpCooldown (updateTimers dt p))"
  using assms by (auto simp add: updateTimers_def Let_def)

text \<open>One frame of 1/60 second on three running timers.\<close>

theorem updateTimers_countdown_witness:
  "(0 :: real) < 1 / 60 \<and>
   coyoteTimer (updateTimers (1 / 60) ticking) = 5 / 100 - 1 / 60 \<and>
   jumpBufferTimer (updateTimers (1 / 60) ticking) = 1 / 10 - 1 / 60 \<and>
   wallJumpCooldown (updateTimers (1 / 60) ticking) = 15 / 100 - 1 / 60 \<and>
   - (1 / 60) < coyoteTimer (updateTimers (1 / 60) ticking)"
  using updateTimers_countdown [of "1 / 60" ticking]
  by (simp add: ticking_def reset_def)

text \<open>
  C4 as worded fails when a frame is longer than what is left on a timer: a coyote
  timer of 0.05 after a frame of 0.1 second is -0.05, not 0.
\<close>

theorem updateTimers_floor_counterexample:
  "(0 :: real) < 1 / 10 \<and>
   coyoteTimer (updateTimers (1 / 10) ticking) = - (5 / 100) \<and>
   coyoteTimer (updateTimers (1 / 10) ticking) \<noteq> max 0 (coyoteTimer ticking - 1 / 10) \<and>
   coyoteTimer (updateTimers (1 / 10) ticking) < 0"
  by (simp add: ticking_def reset_def updateTimers_def Let_def)

section \<open>Jumping\<close>

text \<open>
  Claim C5.  When \<open>handleJumping\<close> runs with the jump input released on a player that
  moves upward with \<open>canVariableJump\<close> set, the flag is cleared and the cut factor is
  applied once: to the entry velocity when no jump is launched in the same call, and to
  the launch velocity when a buffered wall jump or ground jump is.  A further call on the
  result that launches no jump leaves \<open>vy\<close> as it is and the flag cleared.
\<close>

theorem handleJumping_variable_jump:
  assumes "\<not> in_jumpHeld input" and "canVariableJump p" and "vy p < 0"
  shows "\<not> canVariableJump (handleJumping input p) \<and>
         (\<not> ((jumpPressed input \<or> jumpBufferTimer p > 0) \<and>
              (wallSliding p \<or> grounded p \<or> coyoteTimer p > 0)) \<longrightarrow>
            vy (handleJumping input p) = vy p * JUMP_CUT_MULT) \<and>
         ((jumpPressed input \<or> jumpBufferTimer p > 0) \<and> wallSliding p \<longrightarrow>
            vy (handleJumping input p) = - WALL_JUMP_FORCE_Y * JUMP_CUT_MULT) \<and>
         ((jumpPressed input \<or> jumpBufferTimer p > 0) \<and> \<not> wallSliding p \<and>
             (grounded p \<or> coyoteTimer p > 0) \<longrightarrow>
            vy (handleJumping input p) = - JUMP_FORCE * JUMP_CUT_MULT) \<and>
         (\<forall>input'.
            \<not> ((jumpPressed input' \<or> jumpBufferTimer (handleJumping input p) > 0) \<and>
               (wallSliding (handleJumping input p) \<or> grounded (handleJumping input p) \<or>
                coyoteTimer (handleJumping input p) > 0)) \<longrightarrow>
            vy (handleJumping input' (handleJumping input p)) = vy (handleJumping input p) \<and>
            \<not> canVariableJump (handleJumping input' (handleJumping input p)))"
proof -
  let ?q = "handleJumping input p"
  have flag: "\<not> canVariableJump ?q"
    using assms
    by (simp add: handleJumping_def Let_def wallJump_def groundJump_def JUMP_BUFFER_TIME_def
        WALL_JUMP_FORCE_Y_def JUMP_FORCE_def)
  have plain: "\<not> ((jumpPressed input \<or> jumpBufferTimer p > 0) \<and>
              (wallSliding p \<or> grounded p \<or> coyoteTimer p > 0)) \<longrightarrow>
            vy ?q = vy p * JUMP_CUT_MULT"
    using assms
    by (auto simp add: handleJumping_def Let_def JUMP_BUFFER_TIME_def)
  have wall: "(jumpPressed input \<or> jumpBufferTimer p > 0) \<and> wallSliding p \<longrightarrow>
            vy ?q = - WALL_JUMP_FORCE_Y * JUMP_CUT_MULT"
    using assms
    by (auto simp add: handleJumping_def Let_def wallJump_def JUMP_BUFFER_TIME_def
        WALL_JUMP_FORCE_Y_def)
  have ground: "(jumpPressed input \<or> jumpBufferTimer p > 0) \<and> \<not> wallSliding p \<and>
             (grounded p \<or> coyoteTimer p > 0) \<longrightarrow>
            vy ?q = - JUMP_FORCE * JUMP_CUT_MULT"
    using assms
    by (auto simp add: handleJumping_def Let_def groundJump_def JUMP_BUFFER_TIME_def
        JUMP_FORCE_def)
  have again: "vy (handleJumping input' ?q) = vy ?q \<and>
               \<not> canVariableJump (handleJumping input' ?q)"
    if "\<not> ((jumpPressed input' \<or> jumpBufferTimer ?q > 0) \<and>
               (wallSliding ?q \<or> grounded ?q \<or> coyoteTimer ?q > 0))" for input'
  proof -
    have "handleJumping input' ?q =
            (if jumpPressed input' then ?q\<lparr>jumpBufferTimer := JUMP_BUFFER_TIME\<rparr> else ?q)
              \<lparr>jumpHeld := in_jumpHeld input'\<rparr>"
      using that flag
      by (auto simp add: handleJumping_def [of input' ?q] Let_def JUMP_BUFFER_TIME_def)
    then show ?thesis using flag by simp
  qed
  show ?thesis using flag plain wall ground again by blast
qed

text \<open>
  A full jump of -420 released in the air is cut to -168, and releasing again changes
  nothing; a buffered wall jump fired with the button released ends at -152, a buffered
  ground jump at -168.
\<close>

theorem handleJumping_variable_jump_witness:
  "\<not> in_jumpHeld noInput \<and> canVariableJump rising \<and> vy rising < 0 \<and>
   \<not> canVariableJump (handleJumping noInput rising) \<and>
   vy (handleJumping noInput rising) = - 168 \<and>
   vy (handleJumping noInput (handleJumping noInput rising)) = - 168 \<and>
   canVariableJump risingOnWall \<and> vy risingOnWall < 0 \<and>
   jumpBufferTimer risingOnWall > 0 \<and> wallSliding risingOnWall \<and>
   vy (handleJumping noInput risingOnWall) = - 152 \<and>
   canVariableJump risingOnGround \<and> vy risingOnGround < 0 \<and>
   jumpBufferTimer risingOnGround > 0 \<and> grounded risingOnGround \<and>
   vy (handleJumping noInput risingOnGround) = - 168"
proof -
  have h: "\<not> in_jumpHeld noInput" "canVariableJump rising" "vy rising < 0"
    by (simp_all add: noInput_def rising_def reset_def)
  have q: "jumpBufferTimer (handleJumping noInput rising) = 0 \<and>
           \<not> grounded (handleJumping noInput rising) \<and>
           \<not> wallSliding (handleJumping noInput rising) \<and>
           coyoteTimer (handleJumping noInput rising) = 0"
    by (simp add: handleJumping_def Let_def noInput_def rising_def reset_def)
  have w: "canVariableJump risingOnWall" "vy risingOnWall < 0"
    "jumpBufferTimer risingOnWall > 0" "wallSliding risingOnWall"
    by (simp_all add: risingOnWall_def rising_def reset_def)
  have g: "canVariableJump risingOnGround" "vy risingOnGround < 0"
    "jumpBufferTimer risingOnGround > 0" "grounded risingOnGround"
    "\<not> wallSliding risingOnGround"
    by (simp_all add: risingOnGround_def rising_def reset_def)
  have plain: "\<not> canVariableJump (handleJumping noInput rising) \<and>
      vy (handleJumping noInput rising) = - 168 \<and>
      vy (handleJumping noInput (handleJumping noInput rising)) = - 168"
    using h q handleJumping_variable_jump [OF h]
    by (simp add: noInput_def rising_def reset_def JUMP_CUT_MULT_def)
  have wall: "vy (handleJumping noInput risingOnWall) = - 152"
    using handleJumping_variable_jump [OF h(1) w(1) w(2)] w
    by (simp add: WALL_JUMP_FORCE_Y_def JUMP_CUT_MULT_def)
  have ground: "vy (handleJumping noInput risingOnGround) = - 168"
    using handleJumping_variable_jump [OF h(1) g(1) g(2)] g
    by (simp add: JUMP_FORCE_def JUMP_CUT_MULT_def)
  show ?thesis
    using h w g plain wall ground by simp
qed

text \<open>
  Claim C6, as the code has it.  From a wall-sliding player with a jump request pending,
  \<open>handleJumping\<close> sets \<open>vx\<close> to \<open>- wallDirection * 320\<close>, clears \<open>wallSliding\<close>, arms
  the cooldown to 0.15, empties the jump buffer and faces away from the wall.  While the
  jump input is held, \<open>vy\<close> is -380 and \<open>canVariableJump\<close> is set; when it is already
  released, the variable-jump rule of the same call cuts \<open>vy\<close> to -152 and clears the
  flag.
\<close>

theorem handleJumping_wall_jump:
  assumes "wallSliding p" and "wallDirection p = - 1 \<or> wallDirection p = 1"
    and "jumpPressed input \<or> jumpBufferTimer p > 0"
  shows "vx (handleJumping input p) = - wallDirection p * 320 \<and>
         \<not> wallSliding (handleJumping input p) \<and>
         wallJumpCooldown (handleJumping input p) = 15 / 100 \<and>
         jumpBufferTimer (handleJumping input p) = 0 \<and>
         facingRight (handleJumping input p) = (wallDirection p < 0) \<and>
         (in_jumpHeld input \<longrightarrow>
            vy (handleJumping input p) = - 380 \<and> canVariableJump (handleJumping input p)) \<and>
         (\<not> in_jumpHeld input \<longrightarrow>
            vy (handleJumping input p) = - 152 \<and> \<not> canVariableJump (handleJumping input p))"
  using assms
  by (auto simp add: handleJumping_def Let_def wallJump_def JUMP_BUFFER_TIME_def
      WALL_JUMP_FORCE_X_def WALL_JUMP_FORCE_Y_def WALL_JUMP_COOLDOWN_def JUMP_CUT_MULT_def)

text \<open>A buffered jump from a wall on the right, with the button held and released.\<close>

theorem handleJumping_wall_jump_witness:
  "wallSliding onWall \<and> wallDirection onWall = 1 \<and> jumpBufferTimer onWall > 0 \<and>
   in_jumpHeld holdJump \<and>
   vx (handleJumping holdJump onWall) = - 320 \<and>
   vy (handleJumping holdJump onWall) = - 380 \<and>
   \<not> wallSliding (handleJumping holdJump onWall) \<and>
   wallJumpCooldown (handleJumping holdJump onWall) = 15 / 100 \<and>
   canVariableJump (handleJumping holdJump onWall) \<and>
   jumpBufferTimer (handleJumping holdJump onWall) = 0 \<and>
   \<not> facingRight (handleJumping holdJump onWall) \<and>
   \<not> in_jumpHeld noInput \<and>
   vx (handleJumping noInput onWall) = - 320 \<and>
   vy (handleJumping noInput onWall) = - 152 \<and>
   \<not> canVariableJump (handleJumping noInput onWall)"
proof -
  have h: "wallSliding onWall" "wallDirection onWall = - 1 \<or> wallDirection onWall = 1"
    "jumpPressed holdJump \<or> jumpBufferTimer onWall > 0"
    by (simp_all add: onWall_def reset_def)
  have r: "jumpPressed noInput \<or> jumpBufferTimer onWall > 0"
    by (simp add: onWall_def reset_def)
  show ?thesis
    using h handleJumping_wall_jump [OF h] handleJumping_wall_jump [OF h(1) h(2) r]
    by (simp add: onWall_def reset_def holdJump_def noInput_def)
qed

text \<open>
  C6 as worded fails when the buffered jump fires after the button was released: the
  wall jump is cut at once, \<open>vy\<close> is -152 and \<open>canVariableJump\<close> is false.
\<close>

theorem handleJumping_wall_jump_released_counterexample:
  "wallSliding onWall \<and> wallDirection onWall = 1 \<and> jumpBufferTimer onWall > 0 \<and>
   vy (handleJumping noInput onWall) = - 152 \<and>
   vy (handleJumping noInput onWall) \<noteq> - 380 \<and>
   \<not> canVariableJump (handleJumping noInput onWall)"
  by (simp add: onWall_def reset_def noInput_def handleJumping_def Let_def wallJump_def
      WALL_JUMP_FORCE_Y_def JUMP_CUT_MULT_def)

section \<open>Spawn point\<close>

lemma spawn_parseBackgroundColor:
  "spawnX (parseBackgroundColor data l) = spawnX l \<and>
   spawnY (parseBackgroundColor data l) = spawnY l"
  by (simp add: parseBackgroundColor_def split: option.splits list.splits)

lemma spawn_parseHazards:
  "spawnX (parseHazards data l) = spawnX l \<and> spawnY (parseHazards data l) = spawnY l"
  by (simp add: parseHazards_def split: option.splits)

lemma spawn_parseGoal:
  "spawnX (parseGoal data l) = spawnX l \<and> spawnY (parseGoal data l) = spawnY l"
  by (simp add: parseGoal_def split: option.splits)

lemma loadLevel_spawn:
  assumes "loadLevel (Some data) = Some lv"
  shows "spawnX lv = spawnX (parseSpawn data l0) \<and> spawnY lv = spawnY (parseSpawn data l0)"
proof -
  from assms obtain l where
    "lv = parseBackgroundColor data (parseHazards data (parseGoal data (parseSpawn data l)))"
    by (auto simp add: loadLevel_def Let_def split: if_splits)
  then show ?thesis
    by (simp add: spawn_parseBackgroundColor spawn_parseHazards spawn_parseGoal parseSpawn_def
        split: option.splits)
qed

lemma loadLevel_readme: "loadLevel (Some readmeJson) = Some readmeLevel"
  by (simp add: loadLevel_def Let_def readmeJson_def readmeLevel_def or_int_def or_real_def
      or_string_def newLevel_def parseBackgroundColor_def parseHazards_def parseHazard_def
      parseGoal_def parseSpawn_def parseTiles_def TILE_SIZE_def EMPTY_def)

text \<open>
  Claim C9, as the code has it.  A level whose JSON declares \<open>spawn {x: 3, y: 19}\<close> is
  loaded with the spawn point \<open>tile * TILE_SIZE + TILE_SIZE / 2\<close>, and \<open>spawnPlayer\<close>
  on a session that holds this level places the player at world position (56, 312).
\<close>

theorem loadLevel_spawn_world:
  assumes "loadLevel (Some data) = Some lv"
    and "j_spawn data = Some \<lparr> sj_x = Some 3, sj_y = Some 19 \<rparr>"
    and "level g = lv"
  shows "spawnX lv = 3 * TILE_SIZE + TILE_SIZE / 2 \<and>
         spawnY lv = 19 * TILE_SIZE + TILE_SIZE / 2 \<and>
         px (player (spawnPlayer g)) = 56 \<and>
         py (player (spawnPlayer g)) = 312"
proof -
  have "spawnX lv = 3 * TILE_SIZE + TILE_SIZE / 2 \<and> spawnY lv = 19 * TILE_SIZE + TILE_SIZE / 2"
    using loadLevel_spawn [OF assms(1), of newLevel] assms(2)
    by (simp add: parseSpawn_def or_real_def)
  then show ?thesis
    using assms(3) by (simp add: spawnPlayer_def TILE_SIZE_def)
qed

text \<open>The README's level loads, and its player spawns at (56, 312).\<close>

theorem loadLevel_spawn_world_witness:
  "loadLevel (Some readmeJson) = Some readmeLevel \<and>
   j_spawn readmeJson = Some \<lparr> sj_x = Some 3, sj_y = Some 19 \<rparr> \<and>
   level (newGame readmeLevel) = readmeLevel \<and>
   spawnX readmeLevel = 56 \<and> spawnY readmeLevel = 312 \<and>
   px (player (spawnPlayer (newGame readmeLevel))) = 56 \<and>
   py (player (spawnPlayer (newGame readmeLevel))) = 312"
proof -
  have sp: "j_spawn readmeJson = Some \<lparr> sj_x = Some 3, sj_y = Some 19 \<rparr>"
    by (simp add: readmeJson_def)
  have lv: "level (newGame readmeLevel) = readmeLevel"
    by (simp add: newGame_def)
  show ?thesis
    using loadLevel_readme sp lv loadLevel_spawn_world [OF loadLevel_readme sp lv]
    by (simp add: TILE_SIZE_def)
qed

text \<open>
  C9 as worded names the position (52, 308); the README's level puts the player at
  (56, 312).
\<close>

theorem loadLevel_spawn_world_counterexample:
  "loadLevel (Some readmeJson) = Some readmeLevel \<and>
   j_spawn readmeJson = Some \<lparr> sj_x = Some 3, sj_y = Some 19 \<rparr> \<and>
   px (player (spawnPlayer (newGame readmeLevel))) = 56 \<and>
   py (player (spawnPlayer (newGame readmeLevel))) = 312 \<and>
   px (player (spawnPlayer (newGame readmeLevel))) \<noteq> 52 \<and>
   py (player (spawnPlayer (newGame readmeLevel))) \<noteq> 308"
  using loadLevel_readme
  by (simp add: readmeJson_def readmeLevel_def newGame_def spawnPlayer_def)

section \<open>Landing\<close>

lemma resolveTile_keeps_landing:
  assumes "vy p = 0 \<and> grounded p \<and> coyoteTimer p = COYOTE_TIME"
  shows "vy (resolveTile lv l r t b tx ty p) = 0 \<and>
         grounded (resolveTile lv l r t b tx ty p) \<and>
         coyoteTimer (resolveTile lv l r t b tx ty p) = COYOTE_TIME"
  using assms by (simp add: resolveTile_def Let_def)

lemma resolveTile_lands:
  assumes "isSolidTile lv tx ty"
    and "\<not> \<bar>minOverlapX l r tx\<bar> < \<bar>minOverlapY t b ty\<bar>"
    and "minOverlapY t b ty < 0"
  shows "vy (resolveTile lv l r t b tx ty p) = 0 \<and>
         grounded (resolveTile lv l r t b tx ty p) \<and>
         coyoteTimer (resolveTile lv l r t b tx ty p) = COYOTE_TIME"
  using assms by (simp add: resolveTile_def Let_def)

lemma scanRow_keeps_landing:
  "vy p = 0 \<and> grounded p \<and> coyoteTimer p = COYOTE_TIME \<Longrightarrow>
   vy (scanRow lv l r t b ty tx txMax p) = 0 \<and>
   grounded (scanRow lv l r t b ty tx txMax p) \<and>
   coyoteTimer (scanRow lv l r t b ty tx txMax p) = COYOTE_TIME"
proof (induction lv l r t b ty tx txMax p rule: scanRow.induct)
  case (1 lv l r t b ty tx txMax p)
  show ?case
  proof (cases "tx \<le> txMax")
    case True
    then show ?thesis
      using "1.IH" [OF True resolveTile_keeps_landing [OF "1.prems"]]
      by (simp add: scanRow.simps [of lv l r t b ty tx txMax p])
  next
    case False
    then show ?thesis
      using "1.prems" by (simp add: scanRow.simps [of lv l r t b ty tx txMax p])
  qed
qed

lemma scanRow_lands:
  "tx0 \<le> tx \<Longrightarrow> tx \<le> txMax \<Longrightarrow> isSolidTile lv tx ty \<Longrightarrow>
   \<not> \<bar>minOverlapX l r tx\<bar> < \<bar>minOverlapY t b ty\<bar> \<Longrightarrow> minOverlapY t b ty < 0 \<Longrightarrow>
   vy (scanRow lv l r t b ty tx0 txMax p) = 0 \<and>
   grounded (scanRow lv l r t b ty tx0 txMax p) \<and>
   coyoteTimer (scanRow lv l r t b ty tx0 txMax p) = COYOTE_TIME"
proof (induction lv l r t b ty tx0 txMax p rule: scanRow.induct)
  case (1 lv l r t b ty tx0 txMax p)
  have inside: "tx0 \<le> txMax" using "1.prems" by simp
  show ?case
  proof (cases "tx0 = tx")
    case True
    have "vy (resolveTile lv l r t b tx0 ty p) = 0 \<and>
          grounded (resolveTile lv l r t b tx0 ty p) \<and>
          coyoteTimer (resolveTile lv l r t b tx0 ty p) = COYOTE_TIME"
      using resolveTile_lands "1.prems" True by simp
    then show ?thesis
      using scanRow_keeps_landing inside
      by (simp add: scanRow.simps [of lv l r t b ty tx0 txMax p])
  next
    case False
    then have "tx0 + 1 \<le> tx" using "1.prems" by simp
    then show ?thesis
      using "1.IH" [OF inside] "1.prems" inside
      by (simp add: scanRow.simps [of lv l r t b ty tx0 txMax p])
  qed
qed

lemma scanRows_keeps_landing:
  "vy p = 0 \<and> grounded p \<and> coyoteTimer p = COYOTE_TIME \<Longrightarrow>
   vy (scanRows lv l r t b txMin txMax ty tyMax p) = 0 \<and>
   grounded (scanRows lv l r t b txMin txMax ty tyMax p) \<and>
   coyoteTimer (scanRows lv l r t b txMin txMax ty tyMax p) = COYOTE_TIME"
proof (induction lv l r t b txMin txMax ty tyMax p rule: scanRows.induct)
  case (1 lv l r t b txMin txMax ty tyMax p)
  show ?case
  proof (cases "ty \<le> tyMax")
    case True
    then show ?thesis
      using "1.IH" [OF True scanRow_keeps_landing [OF "1.prems"]]
      by (simp add: scanRows.simps [of lv l r t b txMin txMax ty tyMax p])
  next
    case False
    then show ?thesis
      using "1.prems" by (simp add: scanRows.simps [of lv l r t b txMin txMax ty tyMax p])
  qed
qed

lemma scanRows_lands:
  "ty0 \<le> ty \<Longrightarrow> ty \<le> tyMax \<Longrightarrow> txMin \<le> tx \<Longrightarrow> tx \<le> txMax \<Longrightarrow> isSolidTile lv tx ty \<Longrightarrow>
   \<not> \<bar>minOverlapX l r tx\<bar> < \<bar>minOverlapY t b ty\<bar> \<Longrightarrow> minOverlapY t b ty < 0 \<Longrightarrow>
   vy (scanRows lv l r t b txMin txMax ty0 tyMax p) = 0 \<and>
   grounded (scanRows lv l r t b txMin txMax ty0 tyMax p) \<and>
   coyoteTimer (scanRows lv l r t b txMin txMax ty0 tyMax p) = COYOTE_TIME"
proof (induction lv l r t b txMin txMax ty0 tyMax p rule: scanRows.induct)
  case (1 lv l r t b txMin txMax ty0 tyMax p)
  have inside: "ty0 \<le> tyMax" using "1.prems" by simp
  show ?case
  proof (cases "ty0 = ty")
    case True
    have "vy (scanRow lv l r t b ty0 txMin txMax p) = 0 \<and>
          grounded (scanRow lv l r t b ty0 txMin txMax p) \<and>
          coyoteTimer (scanRow lv l r t b ty0 txMin txMax p) = COYOTE_TIME"
      using scanRow_lands "1.prems" True by simp
    then show ?thesis
      using scanRows_keeps_landing inside
      by (simp add: scanRows.simps [of lv l r t b txMin txMax ty0 tyMax p])
  next
    case False
    then have "ty0 + 1 \<le> ty" using "1.prems" by simp
    then show ?thesis
      using "1.IH" [OF inside] "1.prems" inside
      by (simp add: scanRows.simps [of lv l r t b txMin txMax ty0 tyMax p])
  qed
qed

text \<open>
  Claim C1.  The scan of \<open>resolveCollisions\<close> visits the tiles from \<open>tileLeft\<close> to
  \<open>tileRight\<close> and from \<open>tileTop\<close> to \<open>tileBottom\<close>, with the pushes computed from the
  bounds the player has on entry.  If one of these tiles is Solid, is resolved along the
  vertical axis and its push is negative (upward), then after the pass \<open>vy\<close> is zero,
  \<open>grounded\<close> is true and \<open>coyoteTimer\<close> is 0.08: no later tile of the scan undoes
  any of the three.
\<close>

theorem resolveCollisions_landing:
  assumes "tileLeft p \<le> tx" and "tx \<le> tileRight p"
    and "tileTop p \<le> ty" and "ty \<le> tileBottom p"
    and "isSolidTile lv tx ty"
    and "\<not> \<bar>minOverlapX (boundLeft p) (boundRight p) tx\<bar>
           < \<bar>minOverlapY (boundTop p) (boundBottom p) ty\<bar>"
    and "minOverlapY (boundTop p) (boundBottom p) ty < 0"
  shows "vy (resolveCollisions lv p) = 0 \<and>
         grounded (resolveCollisions lv p) \<and>
         coyoteTimer (resolveCollisions lv p) = 8 / 100"
proof -
  let ?p = "p\<lparr>grounded := False\<rparr>"
  have same: "boundLeft ?p = boundLeft p" "boundRight ?p = boundRight p"
    "boundTop ?p = boundTop p" "boundBottom ?p = boundBottom p"
    "tileLeft ?p = tileLeft p" "tileRight ?p = tileRight p"
    "tileTop ?p = tileTop p" "tileBottom ?p = tileBottom p"
    by (simp_all add: boundLeft_def boundRight_def boundTop_def boundBottom_def
        tileLeft_def tileRight_def tileTop_def tileBottom_def)
  have "vy (scanRows lv (boundLeft p) (boundRight p) (boundTop p) (boundBottom p)
              (tileLeft p) (tileRight p) (tileTop p) (tileBottom p) ?p) = 0 \<and>
        grounded (scanRows lv (boundLeft p) (boundRight p) (boundTop p) (boundBottom p)
              (tileLeft p) (tileRight p) (tileTop p) (tileBottom p) ?p) \<and>
        coyoteTimer (scanRows lv (boundLeft p) (boundRight p) (boundTop p) (boundBottom p)
              (tileLeft p) (tileRight p) (tileTop p) (tileBottom p) ?p) = COYOTE_TIME"
    by (rule scanRows_lands [OF assms(3) assms(4) assms(1) assms(2) assms(5) assms(6) assms(7)])
  then show ?thesis
    by (simp add: resolveCollisions_def Let_def same COYOTE_TIME_def)
qed

lemma sinking_range:
  "tileLeft sinking = 1" "tileRight sinking = 2" "tileTop sinking = 1" "tileBottom sinking = 2"
  by (simp_all add: sinking_def reset_def tileLeft_def tileRight_def tileTop_def tileBottom_def
      boundLeft_def boundRight_def boundTop_def boundBottom_def TILE_SIZE_def PLAYER_WIDTH_def
      PLAYER_HEIGHT_def)

text \<open>A falling player one unit into the floor lands on it.\<close>

theorem resolveCollisions_landing_witness:
  "isSolidTile floorLevel 1 2 \<and>
   minOverlapY (boundTop sinking) (boundBottom sinking) 2 = - 1 \<and>
   minOverlapX (boundLeft sinking) (boundRight sinking) 1 = 16 \<and>
   vy sinking = 60 \<and>
   vy (resolveCollisions floorLevel sinking) = 0 \<and>
   grounded (resolveCollisions floorLevel sinking) \<and>
   coyoteTimer (resolveCollisions floorLevel sinking) = 8 / 100"
proof -
  have solid: "isSolidTile floorLevel 1 2"
    by (simp add: floorLevel_def newLevel_def isSolidTile_def js_index_def SOLID_def)
  have my: "minOverlapY (boundTop sinking) (boundBottom sinking) 2 = - 1"
    by (simp add: sinking_def reset_def minOverlapY_def boundTop_def boundBottom_def
        TILE_SIZE_def PLAYER_HEIGHT_def Let_def)
  have mx: "minOverlapX (boundLeft sinking) (boundRight sinking) 1 = 16"
    by (simp add: sinking_def reset_def minOverlapX_def boundLeft_def boundRight_def
        TILE_SIZE_def PLAYER_WIDTH_def Let_def)
  have "vy (resolveCollisions floorLevel sinking) = 0 \<and>
        grounded (resolveCollisions floorLevel sinking) \<and>
        coyoteTimer (resolveCollisions floorLevel sinking) = 8 / 100"
    using resolveCollisions_landing [of sinking 1 2 floorLevel] solid my mx sinking_range
    by simp
  then show ?thesis
    using solid my mx by (simp add: sinking_def reset_def)
qed

section \<open>Free fall of a spawned player\<close>

lemma scanRow_clear:
  "(\<forall>tx'. tx \<le> tx' \<and> tx' \<le> txMax \<longrightarrow> \<not> isSolidTile lv tx' ty) \<Longrightarrow>
   scanRow lv l r t b ty tx txMax p = p"
proof (induction lv l r t b ty tx txMax p rule: scanRow.induct)
  case (1 lv l r t b ty tx txMax p)
  show ?case
  proof (cases "tx \<le> txMax")
    case True
    have here: "resolveTile lv l r t b tx ty p = p"
      using "1.prems" True by (simp add: resolveTile_def)
    have "scanRow lv l r t b ty (tx + 1) txMax (resolveTile lv l r t b tx ty p) =
          resolveTile lv l r t b tx ty p"
      using "1.IH" [OF True] "1.prems" by simp
    then show ?thesis
      using True here by (simp add: scanRow.simps [of lv l r t b ty tx txMax p])
  next
    case False
    then show ?thesis by (simp add: scanRow.simps [of lv l r t b ty tx txMax p])
  qed
qed

lemma scanRows_clear:
  "(\<forall>tx' ty'. txMin \<le> tx' \<and> tx' \<le> txMax \<and> ty \<le> ty' \<and> ty' \<le> tyMax \<longrightarrow>
       \<not> isSolidTile lv tx' ty') \<Longrightarrow>
   scanRows lv l r t b txMin txMax ty tyMax p = p"
proof (induction lv l r t b txMin txMax ty tyMax p rule: scanRows.induct)
  case (1 lv l r t b txMin txMax ty tyMax p)
  show ?case
  proof (cases "ty \<le> tyMax")
    case True
    have here: "scanRow lv l r t b ty txMin txMax p = p"
      using "1.prems" True by (simp add: scanRow_clear)
    have "scanRows lv l r t b txMin txMax (ty + 1) tyMax (scanRow lv l r t b ty txMin txMax p) =
          scanRow lv l r t b ty txMin txMax p"
      using "1.IH" [OF True] "1.prems" by simp
    then show ?thesis
      using True here by (simp add: scanRows.simps [of lv l r t b txMin txMax ty tyMax p])
  next
    case False
    then show ?thesis by (simp add: scanRows.simps [of lv l r t b txMin txMax ty tyMax p])
  qed
qed

lemma resolveCollisions_clear:
  assumes "\<forall>tx ty. tileLeft p \<le> tx \<and> tx \<le> tileRight p \<and> tileTop p \<le> ty \<and> ty \<le> tileBottom p
             \<longrightarrow> \<not> isSolidTile lv tx ty"
  shows "resolveCollisions lv p = p\<lparr>grounded := False\<rparr>"
proof -
  let ?p = "p\<lparr>grounded := False\<rparr>"
  have same: "tileLeft ?p = tileLeft p" "tileRight ?p = tileRight p"
    "tileTop ?p = tileTop p" "tileBottom ?p = tileBottom p"
    by (simp_all add: boundLeft_def boundRight_def boundTop_def boundBottom_def
        tileLeft_def tileRight_def tileTop_def tileBottom_def)
  show ?thesis
    unfolding resolveCollisions_def Let_def same
    by (rule scanRows_clear) (use assms in simp)
qed

text \<open>A freshly spawned player with no horizontal input falls freely for one frame.\<close>

lemma Player_update_fall:
  assumes still: "moveX input = 0" and dt: "0 < dt" "dt \<le> 1 / 10"
    and clear: "\<forall>tx ty.
        tileLeft (reset\<lparr>px := sx, py := sy + GRAVITY * dt * dt\<rparr>) \<le> tx \<and>
        tx \<le> tileRight (reset\<lparr>px := sx, py := sy + GRAVITY * dt * dt\<rparr>) \<and>
        tileTop (reset\<lparr>px := sx, py := sy + GRAVITY * dt * dt\<rparr>) \<le> ty \<and>
        ty \<le> tileBottom (reset\<lparr>px := sx, py := sy + GRAVITY * dt * dt\<rparr>)
        \<longrightarrow> \<not> isSolidTile lv tx ty"
  shows "px (Player_update input lv dt (reset\<lparr>px := sx, py := sy\<rparr>)) = sx \<and>
         py (Player_update input lv dt (reset\<lparr>px := sx, py := sy\<rparr>)) = sy + GRAVITY * dt * dt \<and>
         pwidth (Player_update input lv dt (reset\<lparr>px := sx, py := sy\<rparr>)) = PLAYER_WIDTH \<and>
         pheight (Player_update input lv dt (reset\<lparr>px := sx, py := sy\<rparr>)) = PLAYER_HEIGHT"
proof -
  let ?p = "reset\<lparr>px := sx, py := sy\<rparr>"
  let ?buf = "if jumpPressed input then JUMP_BUFFER_TIME else 0"
  have t: "updateTimers dt ?p = ?p"
    by (simp add: updateTimers_def reset_def)
  have h: "handleHorizontalMovement input dt ?p = ?p"
    using still by (simp add: handleHorizontalMovement_def reset_def)
  have w: "handleWallDetection input lv ?p = ?p"
    using still by (simp add: handleWallDetection_def reset_def Let_def)
  have j: "handleJumping input ?p = ?p\<lparr>jumpBufferTimer := ?buf, jumpHeld := in_jumpHeld input\<rparr>"
    by (simp add: handleJumping_def reset_def Let_def)
  have g: "applyGravity dt (?p\<lparr>jumpBufferTimer := ?buf, jumpHeld := in_jumpHeld input\<rparr>) =
           ?p\<lparr>jumpBufferTimer := ?buf, jumpHeld := in_jumpHeld input, vy := GRAVITY * dt\<rparr>"
    using dt by (simp add: applyGravity_def reset_def Let_def GRAVITY_def MAX_FALL_SPEED_def)
  let ?q = "?p\<lparr>jumpBufferTimer := ?buf, jumpHeld := in_jumpHeld input, vy := GRAVITY * dt,
                py := sy + GRAVITY * dt * dt\<rparr>"
  have range: "tileLeft ?q = tileLeft (reset\<lparr>px := sx, py := sy + GRAVITY * dt * dt\<rparr>)"
    "tileRight ?q = tileRight (reset\<lparr>px := sx, py := sy + GRAVITY * dt * dt\<rparr>)"
    "tileTop ?q = tileTop (reset\<lparr>px := sx, py := sy + GRAVITY * dt * dt\<rparr>)"
    "tileBottom ?q = tileBottom (reset\<lparr>px := sx, py := sy + GRAVITY * dt * dt\<rparr>)"
    by (simp_all add: boundLeft_def boundRight_def boundTop_def boundBottom_def
        tileLeft_def tileRight_def tileTop_def tileBottom_def)
  have c: "resolveCollisions lv ?q = ?q\<lparr>grounded := False\<rparr>"
    by (rule resolveCollisions_clear) (use clear range in simp)
  let ?g = "?p\<lparr>jumpBufferTimer := ?buf, jumpHeld := in_jumpHeld input, vy := GRAVITY * dt\<rparr>"
  have i: "?g\<lparr>px := px ?g + vx ?g * dt\<rparr>
             \<lparr>py := py (?g\<lparr>px := px ?g + vx ?g * dt\<rparr>)
                       + vy (?g\<lparr>px := px ?g + vx ?g * dt\<rparr>) * dt\<rparr> = ?q"
    by (simp add: reset_def)
  have u: "Player_update input lv dt ?p = updateAnimation dt (?q\<lparr>grounded := False\<rparr>)"
    unfolding Player_update_def Let_def t h w j g i c
    by (simp add: reset_def)
  show ?thesis
    unfolding u by (simp add: updateAnimation_def Let_def reset_def)
qed

lemma isSolidTile_inside:
  assumes "SOLID \<notin> set (tiles lv)" and "0 \<le> tx" and "tx < lv_width lv" and "0 \<le> ty"
  shows "\<not> isSolidTile lv tx ty"
proof
  assume "isSolidTile lv tx ty"
  then have "nat (ty * lv_width lv + tx) < length (tiles lv)"
    and "tiles lv ! nat (ty * lv_width lv + tx) = SOLID"
    using assms(2-4) by (auto simp add: isSolidTile_def js_index_def Let_def split: if_splits)
  then have "SOLID \<in> set (tiles lv)"
    by (metis nth_mem)
  then show False using assms(1) by simp
qed

lemma pit_inside: "0 \<le> tx \<Longrightarrow> tx < 4 \<Longrightarrow> 0 \<le> ty \<Longrightarrow> \<not> isSolidTile pit tx ty"
  by (rule isSolidTile_inside) (simp_all add: pit_def SOLID_def)

lemma pit_fields:
  "lv_width pit = 4" "lv_height pit = 4" "hazards pit = [spikes]" "spawnX pit = 24"
  "spawnY pit = 24"
  "goalRect pit = \<lparr> rect_x = 24, rect_y = 24, rect_width = 16, rect_height = 16 \<rparr>"
  by (simp_all add: pit_def)

lemma exitRoom_fields:
  "lv_width exitRoom = 4" "lv_height exitRoom = 4" "hazards exitRoom = []"
  "spawnX exitRoom = 24" "spawnY exitRoom = 24"
  "goalRect exitRoom = \<lparr> rect_x = 24, rect_y = 24, rect_width = 16, rect_height = 16 \<rparr>"
  by (simp_all add: exitRoom_def pit_def)

lemma exitRoom_inside: "0 \<le> tx \<Longrightarrow> tx < 4 \<Longrightarrow> 0 \<le> ty \<Longrightarrow> \<not> isSolidTile exitRoom tx ty"
  by (rule isSolidTile_inside) (simp_all add: exitRoom_def pit_def SOLID_def)

lemma fall_range:
  "tileLeft (reset\<lparr>px := 24, py := 24 + GRAVITY * (1 / 60) * (1 / 60)\<rparr>) = 1"
  "tileRight (reset\<lparr>px := 24, py := 24 + GRAVITY * (1 / 60) * (1 / 60)\<rparr>) = 2"
  "tileTop (reset\<lparr>px := 24, py := 24 + GRAVITY * (1 / 60) * (1 / 60)\<rparr>) = 1"
  "tileBottom (reset\<lparr>px := 24, py := 24 + GRAVITY * (1 / 60) * (1 / 60)\<rparr>) = 2"
  by (simp_all add: reset_def tileLeft_def tileRight_def tileTop_def tileBottom_def
      boundLeft_def boundRight_def boundTop_def boundBottom_def TILE_SIZE_def PLAYER_WIDTH_def
      PLAYER_HEIGHT_def GRAVITY_def)

lemma fall_player:
  assumes "\<And>tx ty. 0 \<le> tx \<Longrightarrow> tx < 4 \<Longrightarrow> 0 \<le> ty \<Longrightarrow> \<not> isSolidTile lv tx ty"
  shows "px (Player_update noInput lv (1 / 60) (reset\<lparr>px := 24, py := 24\<rparr>)) = 24 \<and>
         py (Player_update noInput lv (1 / 60) (reset\<lparr>px := 24, py := 24\<rparr>)) = 24 + 1 / 3 \<and>
         pwidth (Player_update noInput lv (1 / 60) (reset\<lparr>px := 24, py := 24\<rparr>)) = 16 \<and>
         pheight (Player_update noInput lv (1 / 60) (reset\<lparr>px := 24, py := 24\<rparr>)) = 16"
proof -
  have still: "moveX noInput = 0" by (simp add: noInput_def)
  have dt: "(0 :: real) < 1 / 60" "(1 :: real) / 60 \<le> 1 / 10" by simp_all
  show ?thesis
    using Player_update_fall [where sx = 24 and sy = 24 and lv = lv, OF still dt] assms
    unfolding fall_range
    by (simp add: GRAVITY_def PLAYER_WIDTH_def PLAYER_HEIGHT_def)
qed

lemma escape_player:
  "Player_update runRight pit (1 / 10) (reset\<lparr>px := 24, py := 24\<rparr>) =
   reset\<lparr>px := 492 / 10, py := 36, vx := 252, vy := 120, jumpHeld := True\<rparr>"
proof -
  let ?p = "reset\<lparr>px := 24, py := 24\<rparr>"
  have t: "updateTimers (1 / 10) ?p = ?p"
    by (simp add: updateTimers_def reset_def)
  have h: "handleHorizontalMovement runRight (1 / 10) ?p = ?p\<lparr>vx := 252\<rparr>"
    by (simp add: handleHorizontalMovement_def reset_def runRight_def lerp_def MOVE_SPEED_def
        AIR_CONTROL_def)
  have walls: "\<not> checkWallCollision pit (- 1) (?p\<lparr>vx := 252, wallSliding := False, wallDirection := 0\<rparr>)"
    "\<not> checkWallCollision pit 1 (?p\<lparr>vx := 252, wallSliding := False, wallDirection := 0\<rparr>)"
    by (simp_all add: checkWallCollision_def Let_def reset_def TILE_SIZE_def PLAYER_WIDTH_def
        pit_inside)
  have w: "handleWallDetection runRight pit (?p\<lparr>vx := 252\<rparr>) = ?p\<lparr>vx := 252\<rparr>"
    unfolding handleWallDetection_def Let_def using walls
    by (simp add: reset_def)
  have j: "handleJumping runRight (?p\<lparr>vx := 252\<rparr>) = ?p\<lparr>vx := 252, jumpHeld := True\<rparr>"
    by (simp add: handleJumping_def reset_def runRight_def Let_def)
  have g: "applyGravity (1 / 10) (?p\<lparr>vx := 252, jumpHeld := True\<rparr>) =
           ?p\<lparr>vx := 252, jumpHeld := True, vy := 120\<rparr>"
    by (simp add: applyGravity_def reset_def Let_def GRAVITY_def MAX_FALL_SPEED_def)
  let ?g = "?p\<lparr>vx := 252, jumpHeld := True, vy := 120\<rparr>"
  let ?q = "reset\<lparr>px := 492 / 10, py := 36, vx := 252, vy := 120, jumpHeld := True\<rparr>"
  have i: "?g\<lparr>px := px ?g + vx ?g * (1 / 10)\<rparr>
             \<lparr>py := py (?g\<lparr>px := px ?g + vx ?g * (1 / 10)\<rparr>)
                       + vy (?g\<lparr>px := px ?g + vx ?g * (1 / 10)\<rparr>) * (1 / 10)\<rparr> = ?q"
    by (simp add: reset_def)
  have range: "tileLeft ?q = 2" "tileRight ?q = 3" "tileTop ?q = 1" "tileBottom ?q = 2"
    by (simp_all add: reset_def tileLeft_def tileRight_def tileTop_def tileBottom_def
      boundLeft_def boundRight_def boundTop_def boundBottom_def TILE_SIZE_def PLAYER_WIDTH_def
      PLAYER_HEIGHT_def)
  have c: "resolveCollisions pit ?q = ?q\<lparr>grounded := False\<rparr>"
    by (rule resolveCollisions_clear) (use range pit_inside in simp)
  have u: "Player_update runRight pit (1 / 10) ?p = updateAnimation (1 / 10) (?q\<lparr>grounded := False\<rparr>)"
    unfolding Player_update_def Let_def t h w j g i c
    by (simp add: reset_def)
  show ?thesis
    unfolding u by (simp add: updateAnimation_def Let_def reset_def lerp_def)
qed

text \<open>One frame of 1/60 second in \<open>floorPit\<close> without input, and in \<open>pit\<close> running right.\<close>

lemma floorPit_fields:
  "lv_width floorPit = 4" "lv_height floorPit = 4" "hazards floorPit = [spikes]"
  "spawnX floorPit = 24" "spawnY floorPit = 24"
  by (simp_all add: floorPit_def pit_def)

lemma floorPit_tiles:
  "\<not> isSolidTile floorPit 1 1" "\<not> isSolidTile floorPit 2 1"
  "isSolidTile floorPit 1 2" "isSolidTile floorPit 2 2"
  by (simp_all add: isSolidTile_def js_index_def floorPit_def pit_def SOLID_def newLevel_def)

lemma landing_player:
  "px (Player_update noInput floorPit (1 / 60) (reset\<lparr>px := 24, py := 24\<rparr>)) = 24 \<and>
   py (Player_update noInput floorPit (1 / 60) (reset\<lparr>px := 24, py := 24\<rparr>)) = 24 \<and>
   pwidth (Player_update noInput floorPit (1 / 60) (reset\<lparr>px := 24, py := 24\<rparr>)) = 16 \<and>
   pheight (Player_update noInput floorPit (1 / 60) (reset\<lparr>px := 24, py := 24\<rparr>)) = 16 \<and>
   grounded (Player_update noInput floorPit (1 / 60) (reset\<lparr>px := 24, py := 24\<rparr>))"
proof -
  let ?p = "reset\<lparr>px := 24, py := 24\<rparr>"
  have t: "updateTimers (1 / 60) ?p = ?p"
    by (simp add: updateTimers_def reset_def)
  have h: "handleHorizontalMovement noInput (1 / 60) ?p = ?p"
    by (simp add: handleHorizontalMovement_def reset_def noInput_def)
  have w: "handleWallDetection noInput floorPit ?p = ?p"
    by (simp add: handleWallDetection_def reset_def Let_def noInput_def)
  have j: "handleJumping noInput ?p = ?p"
    by (simp add: handleJumping_def reset_def Let_def noInput_def)
  have g: "applyGravity (1 / 60) ?p = ?p\<lparr>vy := 20\<rparr>"
    by (simp add: applyGravity_def reset_def Let_def GRAVITY_def MAX_FALL_SPEED_def)
  let ?g = "?p\<lparr>vy := 20\<rparr>"
  let ?q = "reset\<lparr>px := 24, py := 73 / 3, vy := 20\<rparr>"
  have i: "?g\<lparr>px := px ?g + vx ?g * (1 / 60)\<rparr>
             \<lparr>py := py (?g\<lparr>px := px ?g + vx ?g * (1 / 60)\<rparr>)
                       + vy (?g\<lparr>px := px ?g + vx ?g * (1 / 60)\<rparr>) * (1 / 60)\<rparr> = ?q"
    by (simp add: reset_def)
  have range: "tileLeft ?q = 1" "tileRight ?q = 2" "tileTop ?q = 1" "tileBottom ?q = 2"
    by (simp_all add: reset_def tileLeft_def tileRight_def tileTop_def tileBottom_def
      boundLeft_def boundRight_def boundTop_def boundBottom_def TILE_SIZE_def PLAYER_WIDTH_def
      PLAYER_HEIGHT_def)
  have bounds: "boundLeft (?q\<lparr>grounded := False\<rparr>) = 16" "boundRight (?q\<lparr>grounded := False\<rparr>) = 32"
    "boundTop (?q\<lparr>grounded := False\<rparr>) = 49 / 3" "boundBottom (?q\<lparr>grounded := False\<rparr>) = 97 / 3"
    "tileLeft (?q\<lparr>grounded := False\<rparr>) = 1" "tileRight (?q\<lparr>grounded := False\<rparr>) = 2"
    "tileTop (?q\<lparr>grounded := False\<rparr>) = 1" "tileBottom (?q\<lparr>grounded := False\<rparr>) = 2"
    by (simp_all add: reset_def tileLeft_def tileRight_def tileTop_def tileBottom_def
      boundLeft_def boundRight_def boundTop_def boundBottom_def TILE_SIZE_def PLAYER_WIDTH_def
      PLAYER_HEIGHT_def)
  have c: "resolveCollisions floorPit ?q =
           ?q\<lparr>py := 24, grounded := True, coyoteTimer := COYOTE_TIME, vy := 0, vx := 0\<rparr>"
    unfolding resolveCollisions_def Let_def bounds
    by (simp add: scanRows.simps scanRow.simps resolveTile_def floorPit_tiles minOverlapX_def
        minOverlapY_def Let_def TILE_SIZE_def)
  have u: "Player_update noInput floorPit (1 / 60) ?p =
           updateAnimation (1 / 60)
             (onLand (?q\<lparr>py := 24, grounded := True, coyoteTimer := COYOTE_TIME, vy := 0, vx := 0\<rparr>))"
    unfolding Player_update_def Let_def t h w j g i c
    by (simp add: reset_def onLand_def)
  show ?thesis
    unfolding u
    by (simp add: updateAnimation_def onLand_def Let_def reset_def PLAYER_WIDTH_def
        PLAYER_HEIGHT_def)
qed

lemma drift_player:
  "px (Player_update runRight pit (1 / 60) (reset\<lparr>px := 24, py := 24\<rparr>)) = 282 / 10 \<and>
   py (Player_update runRight pit (1 / 60) (reset\<lparr>px := 24, py := 24\<rparr>)) = 73 / 3 \<and>
   pwidth (Player_update runRight pit (1 / 60) (reset\<lparr>px := 24, py := 24\<rparr>)) = 16 \<and>
   pheight (Player_update runRight pit (1 / 60) (reset\<lparr>px := 24, py := 24\<rparr>)) = 16"
proof -
  let ?p = "reset\<lparr>px := 24, py := 24\<rparr>"
  have t: "updateTimers (1 / 60) ?p = ?p"
    by (simp add: updateTimers_def reset_def)
  have h: "handleHorizontalMovement runRight (1 / 60) ?p = ?p\<lparr>vx := 252\<rparr>"
    by (simp add: handleHorizontalMovement_def reset_def runRight_def lerp_def MOVE_SPEED_def
        AIR_CONTROL_def)
  have walls: "\<not> checkWallCollision pit (- 1) (?p\<lparr>vx := 252, wallSliding := False, wallDirection := 0\<rparr>)"
    "\<not> checkWallCollision pit 1 (?p\<lparr>vx := 252, wallSliding := False, wallDirection := 0\<rparr>)"
    by (simp_all add: checkWallCollision_def Let_def reset_def TILE_SIZE_def PLAYER_WIDTH_def
        pit_inside)
  have w: "handleWallDetection runRight pit (?p\<lparr>vx := 252\<rparr>) = ?p\<lparr>vx := 252\<rparr>"
    unfolding handleWallDetection_def Let_def using walls
    by (simp add: reset_def)
  have j: "handleJumping runRight (?p\<lparr>vx := 252\<rparr>) = ?p\<lparr>vx := 252, jumpHeld := True\<rparr>"
    by (simp add: handleJumping_def reset_def runRight_def Let_def)
  have g: "applyGravity (1 / 60) (?p\<lparr>vx := 252, jumpHeld := True\<rparr>) =
           ?p\<lparr>vx := 252, jumpHeld := True, vy := 20\<rparr>"
    by (simp add: applyGravity_def reset_def Let_def GRAVITY_def MAX_FALL_SPEED_def)
  let ?g = "?p\<lparr>vx := 252, jumpHeld := True, vy := 20\<rparr>"
  let ?q = "reset\<lparr>px := 282 / 10, py := 73 / 3, vx := 252, vy := 20, jumpHeld := True\<rparr>"
  have i: "?g\<lparr>px := px ?g + vx ?g * (1 / 60)\<rparr>
             \<lparr>py := py (?g\<lparr>px := px ?g + vx ?g * (1 / 60)\<rparr>)
                       + vy (?g\<lparr>px := px ?g + vx ?g * (1 / 60)\<rparr>) * (1 / 60)\<rparr> = ?q"
    by (simp add: reset_def)
  have range: "tileLeft ?q = 1" "tileRight ?q = 2" "tileTop ?q = 1" "tileBottom ?q = 2"
    by (simp_all add: reset_def tileLeft_def tileRight_def tileTop_def tileBottom_def
      boundLeft_def boundRight_def boundTop_def boundBottom_def TILE_SIZE_def PLAYER_WIDTH_def
      PLAYER_HEIGHT_def)
  have c: "resolveCollisions pit ?q = ?q\<lparr>grounded := False\<rparr>"
    by (rule resolveCollisions_clear) (use range pit_inside in simp)
  have u: "Player_update runRight pit (1 / 60) ?p = updateAnimation (1 / 60) (?q\<lparr>grounded := False\<rparr>)"
    unfolding Player_update_def Let_def t h w j g i c
    by (simp add: reset_def)
  show ?thesis
    unfolding u
    by (simp add: updateAnimation_def Let_def reset_def lerp_def PLAYER_WIDTH_def
        PLAYER_HEIGHT_def)
qed

section \<open>Session transitions\<close>

lemma anyHazard_iff: "anyHazard r hs \<longleftrightarrow> (\<exists>h \<in> set hs. rectsOverlap r h)"
  by (induction hs) auto

lemma updateParticles_keeps:
  "state (updateParticles dt g) = state g \<and> deathCount (updateParticles dt g) = deathCount g \<and>
   levelTime (updateParticles dt g) = levelTime g \<and> level (updateParticles dt g) = level g \<and>
   player (updateParticles dt g) = player g"
  by (simp add: updateParticles_def)

lemma killPlayer_fields:
  "state (killPlayer rnd g) = DEAD \<and> deathCount (killPlayer rnd g) = deathCount g + 1 \<and>
   particles (killPlayer rnd g) = pushParticles rnd (px (player g)) (py (player g)) 0 (particles g)"
  by (simp add: killPlayer_def spawnDeathParticles_def Let_def)

lemma Game_update_playing_kill:
  assumes "state g = PLAYING" and "\<not> pausePressed input"
    and "checkHazardCollision (g\<lparr>player := Player_update input (level g) dt (player g)\<rparr>)"
  shows "Game_update env input dt g =
         updateParticles dt (killPlayer (random env)
           (g\<lparr>player := Player_update input (level g) dt (player g)\<rparr>))"
  using assms by (simp add: Game_update_def updatePlaying_def Let_def)

lemma Game_update_playing_goal:
  assumes "state g = PLAYING" and "\<not> pausePressed input"
    and "\<not> checkHazardCollision (g\<lparr>player := Player_update input (level g) dt (player g)\<rparr>)"
    and "checkGoalCollision (g\<lparr>player := Player_update input (level g) dt (player g)\<rparr>)"
  shows "Game_update env input dt g =
         updateParticles dt (completeLevel
           (g\<lparr>player := Player_update input (level g) dt (player g)\<rparr>))"
  using assms by (simp add: Game_update_def updatePlaying_def Let_def)

lemma levelComplete_step:
  assumes "state g = LEVEL_COMPLETE" and "state (Game_update env input dt g) = LEVEL_COMPLETE"
  shows "levelTime (Game_update env input dt g) = levelTime g"
proof (cases "jumpPressed input \<or> startPressed input")
  case True
  then have "state (Game_update env input dt g) = PLAYING"
    using assms(1)
    by (simp add: Game_update_def updateLevelComplete_def Let_def updateParticles_def)
  then show ?thesis using assms(2) by simp
next
  case False
  then show ?thesis
    using assms(1)
    by (simp add: Game_update_def updateLevelComplete_def Let_def updateParticles_def)
qed

lemma levelComplete_frames:
  "state g = LEVEL_COMPLETE \<Longrightarrow>
   (\<forall>k \<le> length frames. state (runFrames (take k frames) g) = LEVEL_COMPLETE) \<Longrightarrow>
   levelTime (runFrames frames g) = levelTime g"
proof (induction frames arbitrary: g)
  case Nil
  then show ?case by simp
next
  case (Cons f frames)
  obtain env input dt where f: "f = (env, input, dt)"
    by (cases f) auto
  let ?g = "Game_update env input dt g"
  have all: "state (runFrames (take (Suc k) (f # frames)) g) = LEVEL_COMPLETE"
    if "k \<le> length frames" for k
    using Cons.prems(2) that by (metis Suc_le_mono length_Cons)
  have first: "state ?g = LEVEL_COMPLETE"
    using all [of 0] f by simp
  have rest: "\<forall>k \<le> length frames. state (runFrames (take k frames) ?g) = LEVEL_COMPLETE"
    using all f by simp
  have "levelTime (runFrames frames ?g) = levelTime ?g"
    by (rule Cons.IH [OF first rest])
  then show ?case
    using levelComplete_step [OF Cons.prems(1) first] f by simp
qed

lemma started_fields:
  "state (started lv) = PLAYING \<and>
   player (started lv) = reset\<lparr>px := spawnX lv, py := spawnY lv\<rparr> \<and>
   level (started lv) = lv \<and> deathCount (started lv) = 0 \<and> particles (started lv) = [] \<and>
   levelTime (started lv) = 0"
  by (simp add: started_def updateMenu_def pressJump_def newGame_def spawnPlayer_def Let_def
      reset_def)

lemma pushParticles_append:
  "pushParticles rnd x y i ps =
   ps @ map (\<lambda>k. newParticle rnd (4 * k) x y) [i ..< PARTICLE_COUNT]"
proof (induction rnd x y i ps rule: pushParticles.induct)
  case (1 rnd x y i ps)
  show ?case
  proof (cases "i < PARTICLE_COUNT")
    case True
    then have "[i ..< PARTICLE_COUNT] = i # [i + 1 ..< PARTICLE_COUNT]"
      by (simp add: upt_conv_Cons)
    then show ?thesis
      using "1.IH" [OF True] True by (simp add: pushParticles.simps [of rnd x y i ps])
  next
    case False
    then show ?thesis by (simp add: pushParticles.simps [of rnd x y i ps])
  qed
qed

lemma newParticle_survives:
  assumes "0 \<le> rnd (k + 2)" and "dt \<le> 1 / 10"
  shows "fst (Particle_update dt (newParticle rnd k x y))"
proof -
  have "0 \<le> rnd (k + 2) * (5 / 10)" using assms(1) by simp
  then have "0 < 3 / 10 + rnd (k + 2) * (5 / 10) - dt" using assms(2) by linarith
  then show ?thesis
    by (simp add: Particle_update_def newParticle_def Let_def)
qed

lemma death_burst_count:
  assumes "\<forall>k. 0 \<le> rnd k \<and> rnd k < 1" and "dt \<le> 1 / 10"
  shows "length (particles (updateParticles dt (killPlayer rnd g))) =
         length (filter fst (map (Particle_update dt) (particles g))) + 20"
proof -
  let ?new = "map (\<lambda>k. newParticle rnd (4 * k) (px (player g)) (py (player g)))
                [0 ..< PARTICLE_COUNT]"
  have ps: "particles (killPlayer rnd g) = particles g @ ?new"
    by (simp add: killPlayer_fields pushParticles_append)
  have "\<forall>p \<in> set ?new. fst (Particle_update dt p)"
    using assms(1) assms(2) by (auto intro: newParticle_survives)
  then have "filter fst (map (Particle_update dt) ?new) = map (Particle_update dt) ?new"
    by (simp add: filter_id_conv)
  then have "length (particles (updateParticles dt (killPlayer rnd g))) =
             length (filter fst (map (Particle_update dt) (particles g))) + length ?new"
    by (simp add: updateParticles_def ps)
  then show ?thesis by (simp add: PARTICLE_COUNT_def)
qed

lemma pit_frame_kills:
  "checkHazardCollision ((started pit)\<lparr>player :=
       Player_update noInput (level (started pit)) (1 / 60) (player (started pit))\<rparr>)"
  using fall_player [of pit, OF pit_inside]
  by (simp add: started_fields pit_fields checkHazardCollision_def rectsOverlap_def
      getPlayerRect_def Let_def spikes_def)

lemma levelComplete_idle:
  assumes "state g = LEVEL_COMPLETE" and "\<not> jumpPressed input" and "\<not> startPressed input"
  shows "state (Game_update env input dt g) = LEVEL_COMPLETE"
  using assms by (simp add: Game_update_def updateLevelComplete_def updateParticles_def)

text \<open>
  Claim C10.  In a frame of the Playing state that updates the player (pause is not
  pressed), if the updated player's rectangle overlaps a hazard and also the goal, the
  session becomes Dead and the death count grows by one; it does not become
  LevelComplete.
\<close>

theorem hazard_before_goal:
  assumes "state g = PLAYING" and "\<not> pausePressed input"
    and "h \<in> set (hazards (level g))"
    and "rectsOverlap
           (getPlayerRect (g\<lparr>player := Player_update input (level g) dt (player g)\<rparr>)) h"
    and "rectsOverlap
           (getPlayerRect (g\<lparr>player := Player_update input (level g) dt (player g)\<rparr>))
           (goalRect (level g))"
  shows "state (Game_update env input dt g) = DEAD \<and>
         deathCount (Game_update env input dt g) = deathCount g + 1 \<and>
         state (Game_update env input dt g) \<noteq> LEVEL_COMPLETE"
proof -
  have "checkHazardCollision (g\<lparr>player := Player_update input (level g) dt (player g)\<rparr>)"
    using assms(3) assms(4) by (auto simp add: checkHazardCollision_def Let_def anyHazard_iff)
  then show ?thesis
    using Game_update_playing_kill [OF assms(1) assms(2)]
    by (simp add: updateParticles_keeps killPlayer_fields)
qed

text \<open>The player spawned in \<open>pit\<close> touches the hazard and the goal after one frame.\<close>

theorem hazard_before_goal_witness:
  "state (started pit) = PLAYING \<and> \<not> pausePressed noInput \<and>
   spikes \<in> set (hazards (level (started pit))) \<and>
   rectsOverlap (getPlayerRect ((started pit)\<lparr>player :=
       Player_update noInput (level (started pit)) (1 / 60) (player (started pit))\<rparr>)) spikes \<and>
   rectsOverlap (getPlayerRect ((started pit)\<lparr>player :=
       Player_update noInput (level (started pit)) (1 / 60) (player (started pit))\<rparr>))
     (goalRect (level (started pit))) \<and>
   state (Game_update quietEnv noInput (1 / 60) (started pit)) = DEAD \<and>
   deathCount (Game_update quietEnv noInput (1 / 60) (started pit)) = 1"
proof -
  have st: "state (started pit) = PLAYING" by (simp add: started_fields)
  have np: "\<not> pausePressed noInput" by (simp add: noInput_def)
  have hz: "spikes \<in> set (hazards (level (started pit)))"
    by (simp add: started_fields pit_fields)
  have o1: "rectsOverlap (getPlayerRect ((started pit)\<lparr>player :=
       Player_update noInput (level (started pit)) (1 / 60) (player (started pit))\<rparr>)) spikes"
    using fall_player [of pit, OF pit_inside]
    by (simp add: started_fields pit_fields rectsOverlap_def getPlayerRect_def spikes_def)
  have o2: "rectsOverlap (getPlayerRect ((started pit)\<lparr>player :=
       Player_update noInput (level (started pit)) (1 / 60) (player (started pit))\<rparr>))
     (goalRect (level (started pit)))"
    using fall_player [of pit, OF pit_inside]
    by (simp add: started_fields pit_fields rectsOverlap_def getPlayerRect_def)
  show ?thesis
    using st np hz o1 o2 hazard_before_goal [OF st np hz o1 o2, of quietEnv]
    by (simp add: started_fields)
qed


text \<open>
  Claim C8, as the code has it.  In a frame of the Playing state in which pause is not
  pressed, if the updated player is not killed (no hazard overlaps it and it has not
  fallen out of the level) and its rectangle overlaps the goal, the session becomes
  LevelComplete and \<open>levelTime\<close> keeps its value; over any further frames after each of
  which the state is still LevelComplete, \<open>levelTime\<close> stays the same.
\<close>

theorem goal_completes_level:
  assumes "state g = PLAYING" and "\<not> pausePressed input"
    and "\<not> checkHazardCollision (g\<lparr>player := Player_update input (level g) dt (player g)\<rparr>)"
    and "rectsOverlap
           (getPlayerRect (g\<lparr>player := Player_update input (level g) dt (player g)\<rparr>))
           (goalRect (level g))"
  shows "state (Game_update env input dt g) = LEVEL_COMPLETE \<and>
         levelTime (Game_update env input dt g) = levelTime g \<and>
         (\<forall>frames.
            (\<forall>k \<le> length frames.
               state (runFrames (take k frames) (Game_update env input dt g)) = LEVEL_COMPLETE)
            \<longrightarrow> levelTime (runFrames frames (Game_update env input dt g)) = levelTime g)"
proof -
  let ?g = "Game_update env input dt g"
  have "checkGoalCollision (g\<lparr>player := Player_update input (level g) dt (player g)\<rparr>)"
    using assms(4) by (simp add: checkGoalCollision_def)
  then have eq: "?g = updateParticles dt (completeLevel
           (g\<lparr>player := Player_update input (level g) dt (player g)\<rparr>))"
    using Game_update_playing_goal [OF assms(1) assms(2) assms(3)] by simp
  have st: "state ?g = LEVEL_COMPLETE" and lt: "levelTime ?g = levelTime g"
    unfolding eq by (simp_all add: updateParticles_keeps completeLevel_def)
  show ?thesis
    using st lt levelComplete_frames [OF st] by simp
qed

text \<open>Reaching the goal of \<open>exitRoom\<close>, then two idle frames.\<close>

theorem goal_completes_level_witness:
  "state (started exitRoom) = PLAYING \<and> \<not> pausePressed noInput \<and>
   \<not> checkHazardCollision ((started exitRoom)\<lparr>player :=
       Player_update noInput (level (started exitRoom)) (1 / 60) (player (started exitRoom))\<rparr>) \<and>
   rectsOverlap (getPlayerRect ((started exitRoom)\<lparr>player :=
       Player_update noInput (level (started exitRoom)) (1 / 60) (player (started exitRoom))\<rparr>))
     (goalRect (level (started exitRoom))) \<and>
   state (Game_update quietEnv noInput (1 / 60) (started exitRoom)) = LEVEL_COMPLETE \<and>
   levelTime (Game_update quietEnv noInput (1 / 60) (started exitRoom)) = 0 \<and>
   state (runFrames [(quietEnv, noInput, 1 / 60), (quietEnv, noInput, 1 / 60)]
            (Game_update quietEnv noInput (1 / 60) (started exitRoom))) = LEVEL_COMPLETE \<and>
   levelTime (runFrames [(quietEnv, noInput, 1 / 60), (quietEnv, noInput, 1 / 60)]
                (Game_update quietEnv noInput (1 / 60) (started exitRoom))) = 0"
proof -
  let ?g = "Game_update quietEnv noInput (1 / 60) (started exitRoom)"
  let ?f = "(quietEnv, noInput, 1 / 60 :: real)"
  have st: "state (started exitRoom) = PLAYING" by (simp add: started_fields)
  have np: "\<not> pausePressed noInput" by (simp add: noInput_def)
  have nh: "\<not> checkHazardCollision ((started exitRoom)\<lparr>player :=
       Player_update noInput (level (started exitRoom)) (1 / 60) (player (started exitRoom))\<rparr>)"
    using fall_player [of exitRoom, OF exitRoom_inside]
    by (simp add: started_fields exitRoom_fields checkHazardCollision_def Let_def TILE_SIZE_def)
  have og: "rectsOverlap (getPlayerRect ((started exitRoom)\<lparr>player :=
       Player_update noInput (level (started exitRoom)) (1 / 60) (player (started exitRoom))\<rparr>))
     (goalRect (level (started exitRoom)))"
    using fall_player [of exitRoom, OF exitRoom_inside]
    by (simp add: started_fields exitRoom_fields rectsOverlap_def getPlayerRect_def)
  note main = goal_completes_level [OF st np nh og, of quietEnv]
  have lc: "state ?g = LEVEL_COMPLETE" using main by simp
  have idle: "\<not> jumpPressed noInput" "\<not> startPressed noInput" by (simp_all add: noInput_def)
  have lc1: "state (Game_update quietEnv noInput (1 / 60) ?g) = LEVEL_COMPLETE"
    by (rule levelComplete_idle [OF lc idle])
  have lc2: "state (Game_update quietEnv noInput (1 / 60)
                     (Game_update quietEnv noInput (1 / 60) ?g)) = LEVEL_COMPLETE"
    by (rule levelComplete_idle [OF lc1 idle])
  have stay: "\<forall>k \<le> length [?f, ?f]. state (runFrames (take k [?f, ?f]) ?g) = LEVEL_COMPLETE"
  proof (intro allI impI)
    fix k :: nat
    assume "k \<le> length [?f, ?f]"
    then have "k = 0 \<or> k = 1 \<or> k = 2" by auto
    then show "state (runFrames (take k [?f, ?f]) ?g) = LEVEL_COMPLETE"
      using lc lc1 lc2 by auto
  qed
  have "levelTime (runFrames [?f, ?f] ?g) = levelTime (started exitRoom)"
    using main stay by blast
  then show ?thesis
    using st np nh og main lc2 by (simp add: started_fields)
qed

text \<open>
  C8 as worded fails where a hazard overlaps the player as well: in \<open>pit\<close> the player
  touches the goal after its first frame, and the session becomes Dead.
\<close>

theorem goal_with_hazard_counterexample:
  "state (started pit) = PLAYING \<and> \<not> pausePressed noInput \<and>
   rectsOverlap (getPlayerRect ((started pit)\<lparr>player :=
       Player_update noInput (level (started pit)) (1 / 60) (player (started pit))\<rparr>))
     (goalRect (level (started pit))) \<and>
   state (Game_update quietEnv noInput (1 / 60) (started pit)) = DEAD \<and>
   state (Game_update quietEnv noInput (1 / 60) (started pit)) \<noteq> LEVEL_COMPLETE"
proof -
  have st: "state (started pit) = PLAYING" by (simp add: started_fields)
  have np: "\<not> pausePressed noInput" by (simp add: noInput_def)
  have o2: "rectsOverlap (getPlayerRect ((started pit)\<lparr>player :=
       Player_update noInput (level (started pit)) (1 / 60) (player (started pit))\<rparr>))
     (goalRect (level (started pit)))"
    using fall_player [of pit, OF pit_inside]
    by (simp add: started_fields pit_fields rectsOverlap_def getPlayerRect_def)
  have "state (Game_update quietEnv noInput (1 / 60) (started pit)) = DEAD"
    using Game_update_playing_kill [OF st np pit_frame_kills, of quietEnv]
    by (simp add: updateParticles_keeps killPlayer_fields)
  then show ?thesis using st np o2 by simp
qed

text \<open>
  Claim C7, as the code has it.  The hazard test looks at the player after its update of
  the frame.  In a frame of the Playing state in which pause is not pressed and
  \<open>dt \<le> 0.1\<close>, if the player's rectangle after that update overlaps a hazard (as it
  does on the first frame whenever the update leaves the player inside a hazard that
  contains its spawn rectangle), then the session becomes Dead, the death count grows by
  one, and 20 particles are added to those that survive the frame.  From no death and
  no particle the death count is 1 and the collection holds exactly 20 entries.  Every
  value of \<open>Math.random()\<close> is taken in \<open>[0, 1)\<close>.
\<close>

theorem hazard_after_update_dies:
  assumes "state g = PLAYING" and "\<not> pausePressed input"
    and "dt \<le> 1 / 10"
    and "\<forall>k. 0 \<le> random env k \<and> random env k < 1"
    and "h \<in> set (hazards (level g))"
    and "rectsOverlap
           (getPlayerRect (g\<lparr>player := Player_update input (level g) dt (player g)\<rparr>)) h"
  shows "state (Game_update env input dt g) = DEAD \<and>
         deathCount (Game_update env input dt g) = deathCount g + 1 \<and>
         length (particles (Game_update env input dt g)) =
           length (particles (updateParticles dt g)) + 20 \<and>
         (deathCount g = 0 \<longrightarrow> deathCount (Game_update env input dt g) = 1) \<and>
         (particles g = [] \<longrightarrow> length (particles (Game_update env input dt g)) = 20)"
proof -
  let ?g = "g\<lparr>player := Player_update input (level g) dt (player g)\<rparr>"
  have "checkHazardCollision ?g"
    using assms(5) assms(6) by (auto simp add: checkHazardCollision_def Let_def anyHazard_iff)
  then have eq: "Game_update env input dt g = updateParticles dt (killPlayer (random env) ?g)"
    by (rule Game_update_playing_kill [OF assms(1) assms(2)])
  have "length (particles (updateParticles dt (killPlayer (random env) ?g))) =
        length (filter fst (map (Particle_update dt) (particles ?g))) + 20"
    by (rule death_burst_count [OF assms(4) assms(3)])
  then have n: "length (particles (Game_update env input dt g)) =
                length (particles (updateParticles dt g)) + 20"
    unfolding eq by (simp add: updateParticles_def)
  have d: "deathCount (Game_update env input dt g) = deathCount g + 1"
    and s: "state (Game_update env input dt g) = DEAD"
    unfolding eq by (simp_all add: updateParticles_keeps killPlayer_fields)
  have "particles g = [] \<longrightarrow> length (particles (Game_update env input dt g)) = 20"
    using n by (simp add: updateParticles_def)
  then show ?thesis
    using s d n by simp
qed

text \<open>
  The first frame at 60 frames per second with a hazard around the spawn rectangle: in
  \<open>pit\<close> without input, in \<open>pit\<close> running right, and in \<open>floorPit\<close> where the player
  lands on solid tiles.
\<close>

theorem hazard_after_update_dies_witness:
  "getPlayerRect (started pit) = \<lparr> rect_x = 16, rect_y = 16, rect_width = 16, rect_height = 16 \<rparr> \<and>
   getPlayerRect (started floorPit) =
     \<lparr> rect_x = 16, rect_y = 16, rect_width = 16, rect_height = 16 \<rparr> \<and>
   spikes = \<lparr> rect_x = 8, rect_y = 8, rect_width = 32, rect_height = 40 \<rparr> \<and>
   state (started pit) = PLAYING \<and> state (started floorPit) = PLAYING \<and>
   \<not> pausePressed noInput \<and> \<not> pausePressed runRight \<and>
   spikes \<in> set (hazards (level (started pit))) \<and>
   spikes \<in> set (hazards (level (started floorPit))) \<and>
   rectsOverlap (getPlayerRect ((started pit)\<lparr>player :=
       Player_update noInput (level (started pit)) (1 / 60) (player (started pit))\<rparr>)) spikes \<and>
   state (Game_update quietEnv noInput (1 / 60) (started pit)) = DEAD \<and>
   deathCount (Game_update quietEnv noInput (1 / 60) (started pit)) = 1 \<and>
   length (particles (Game_update quietEnv noInput (1 / 60) (started pit))) = 20 \<and>
   rectsOverlap (getPlayerRect ((started pit)\<lparr>player :=
       Player_update runRight (level (started pit)) (1 / 60) (player (started pit))\<rparr>)) spikes \<and>
   state (Game_update quietEnv runRight (1 / 60) (started pit)) = DEAD \<and>
   deathCount (Game_update quietEnv runRight (1 / 60) (started pit)) = 1 \<and>
   length (particles (Game_update quietEnv runRight (1 / 60) (started pit))) = 20 \<and>
   rectsOverlap (getPlayerRect ((started floorPit)\<lparr>player :=
       Player_update noInput (level (started floorPit)) (1 / 60)
         (player (started floorPit))\<rparr>)) spikes \<and>
   state (Game_update quietEnv noInput (1 / 60) (started floorPit)) = DEAD \<and>
   deathCount (Game_update quietEnv noInput (1 / 60) (started floorPit)) = 1 \<and>
   length (particles (Game_update quietEnv noInput (1 / 60) (started floorPit))) = 20"
proof -
  have box: "getPlayerRect (started pit) =
             \<lparr> rect_x = 16, rect_y = 16, rect_width = 16, rect_height = 16 \<rparr>"
    "getPlayerRect (started floorPit) =
             \<lparr> rect_x = 16, rect_y = 16, rect_width = 16, rect_height = 16 \<rparr>"
    by (simp_all add: getPlayerRect_def started_fields reset_def pit_fields floorPit_fields
        PLAYER_WIDTH_def PLAYER_HEIGHT_def)
  have st: "state (started pit) = PLAYING" "state (started floorPit) = PLAYING"
    by (simp_all add: started_fields)
  have np: "\<not> pausePressed noInput" "\<not> pausePressed runRight"
    by (simp_all add: noInput_def runRight_def)
  have dt: "(1 :: real) / 60 \<le> 1 / 10" by simp
  have rnd: "\<forall>k. 0 \<le> random quietEnv k \<and> random quietEnv k < 1"
    by (simp add: quietEnv_def)
  have hz: "spikes \<in> set (hazards (level (started pit)))"
    "spikes \<in> set (hazards (level (started floorPit)))"
    by (simp_all add: started_fields pit_fields floorPit_fields)
  have o1: "rectsOverlap (getPlayerRect ((started pit)\<lparr>player :=
       Player_update noInput (level (started pit)) (1 / 60) (player (started pit))\<rparr>)) spikes"
    using fall_player [of pit, OF pit_inside]
    by (simp add: started_fields pit_fields rectsOverlap_def getPlayerRect_def spikes_def)
  have o2: "rectsOverlap (getPlayerRect ((started pit)\<lparr>player :=
       Player_update runRight (level (started pit)) (1 / 60) (player (started pit))\<rparr>)) spikes"
    using drift_player
    by (simp add: started_fields pit_fields rectsOverlap_def getPlayerRect_def spikes_def)
  have o3: "rectsOverlap (getPlayerRect ((started floorPit)\<lparr>player :=
       Player_update noInput (level (started floorPit)) (1 / 60)
         (player (started floorPit))\<rparr>)) spikes"
    using landing_player
    by (simp add: started_fields floorPit_fields rectsOverlap_def getPlayerRect_def spikes_def)
  have r1: "state (Game_update quietEnv noInput (1 / 60) (started pit)) = DEAD \<and>
            deathCount (Game_update quietEnv noInput (1 / 60) (started pit)) = 1 \<and>
            length (particles (Game_update quietEnv noInput (1 / 60) (started pit))) = 20"
    using hazard_after_update_dies [OF st(1) np(1) dt rnd hz(1) o1]
    by (simp add: started_fields updateParticles_def)
  have r2: "state (Game_update quietEnv runRight (1 / 60) (started pit)) = DEAD \<and>
            deathCount (Game_update quietEnv runRight (1 / 60) (started pit)) = 1 \<and>
            length (particles (Game_update quietEnv runRight (1 / 60) (started pit))) = 20"
    using hazard_after_update_dies [OF st(1) np(2) dt rnd hz(1) o2]
    by (simp add: started_fields updateParticles_def)
  have r3: "state (Game_update quietEnv noInput (1 / 60) (started floorPit)) = DEAD \<and>
            deathCount (Game_update quietEnv noInput (1 / 60) (started floorPit)) = 1 \<and>
            length (particles (Game_update quietEnv noInput (1 / 60) (started floorPit))) = 20"
    using hazard_after_update_dies [OF st(2) np(1) dt rnd hz(2) o3]
    by (simp add: started_fields updateParticles_def)
  show ?thesis
    using box st np hz o1 o2 o3 r1 r2 r3 by (simp add: spikes_def)
qed

text \<open>
  C7 as worded fails when the player moves out of the hazard before the test: holding
  right for a frame of 0.1 second carries the player 25.2 units to the right, clear of
  the hazard that contains its spawn rectangle; the session stays Playing, with no death
  and no particle.
\<close>

theorem spawn_inside_hazard_escape_counterexample:
  "state (started pit) = PLAYING \<and> deathCount (started pit) = 0 \<and>
   particles (started pit) = [] \<and>
   spikes \<in> set (hazards (level (started pit))) \<and>
   getPlayerRect (started pit) = \<lparr> rect_x = 16, rect_y = 16, rect_width = 16, rect_height = 16 \<rparr> \<and>
   spikes = \<lparr> rect_x = 8, rect_y = 8, rect_width = 32, rect_height = 40 \<rparr> \<and>
   state (Game_update quietEnv runRight (1 / 10) (started pit)) = PLAYING \<and>
   deathCount (Game_update quietEnv runRight (1 / 10) (started pit)) = 0 \<and>
   particles (Game_update quietEnv runRight (1 / 10) (started pit)) = []"
proof -
  have box: "getPlayerRect (started pit) =
             \<lparr> rect_x = 16, rect_y = 16, rect_width = 16, rect_height = 16 \<rparr>"
    by (simp add: getPlayerRect_def started_fields reset_def pit_fields PLAYER_WIDTH_def
        PLAYER_HEIGHT_def)
  let ?g = "(started pit)\<lparr>player :=
       Player_update runRight (level (started pit)) (1 / 10) (player (started pit))\<rparr>"
  have u: "player ?g = reset\<lparr>px := 492 / 10, py := 36, vx := 252, vy := 120, jumpHeld := True\<rparr>"
    using escape_player by (simp add: started_fields pit_fields)
  have nh: "\<not> checkHazardCollision ?g"
    unfolding checkHazardCollision_def getPlayerRect_def Let_def u
    by (simp add: started_fields pit_fields spikes_def rectsOverlap_def reset_def
        PLAYER_WIDTH_def PLAYER_HEIGHT_def TILE_SIZE_def)
  have ng: "\<not> checkGoalCollision ?g"
    unfolding checkGoalCollision_def getPlayerRect_def u
    by (simp add: started_fields pit_fields rectsOverlap_def reset_def
        PLAYER_WIDTH_def PLAYER_HEIGHT_def)
  have "state (Game_update quietEnv runRight (1 / 10) (started pit)) = PLAYING \<and>
        deathCount (Game_update quietEnv runRight (1 / 10) (started pit)) = 0 \<and>
        particles (Game_update quietEnv runRight (1 / 10) (started pit)) = []"
    using nh ng
    by (simp add: Game_update_def updatePlaying_def Let_def started_fields runRight_def
        updateParticles_def)
  then show ?thesis
    using box by (simp add: started_fields pit_fields spikes_def)
qed

end
